theory Spec2Isabelle
  imports Main "HOL-Library.AList" "HOL-Library.Sublist"
begin

section \<open>Python values, exceptions and output streams\<close>

text \<open>
  The program is \<^verbatim>\<open>src/lib/spring_config.py\<close>, a Python 3 script (it imports
  \<^verbatim>\<open>urllib.request\<close> and calls \<^verbatim>\<open>print(..., file=...)\<close>). A Python \<^verbatim>\<open>str\<close> is
  modelled as a \<open>string\<close> whose characters are the code points below 256; a
  \<^verbatim>\<open>bytes\<close> object is a \<open>string\<close> of bytes. A property value is a JSON scalar.

  Taken as given: the environment variables hold JSON of the shape the script
  reads, every \<^verbatim>\<open>filter\<close> is a pattern that \<^verbatim>\<open>re\<close> compiles, and the standard
  streams accept every string. Every other way the script can raise is a
  value of the model.
\<close>

datatype scalar = SStr string | SInt int | SBool bool

text \<open>
  The exceptions the script can raise. \<open>URLError\<close> is a transport failure of
  \<^verbatim>\<open>urlopen\<close> that is not an \<^verbatim>\<open>HTTPError\<close>; \<open>SystemExit n\<close> is \<^verbatim>\<open>sys.exit(n)\<close>.
\<close>

datatype error = TypeError | AttributeError | OSError | URLError | HTTPError | SystemExit int

text \<open>\<^verbatim>\<open>str(n)\<close> for an integer: decimal digits, with a minus sign below zero.\<close>

definition digit_char :: "nat \<Rightarrow> char" where
  "digit_char n = char_of (48 + n)"

function str_nat :: "nat \<Rightarrow> string" where
  "str_nat n = (if n < 10 then [digit_char n] else str_nat (n div 10) @ [digit_char (n mod 10)])"
  by pat_completeness auto
termination
  by (relation "measure (\<lambda>n. n)") auto

declare str_nat.simps [simp del]

definition str_int :: "int \<Rightarrow> string" where
  "str_int i = (if i < 0 then CHR ''-'' # str_nat (nat (- i)) else str_nat (nat i))"

text \<open>\<^verbatim>\<open>str(value)\<close>, the conversion \<^verbatim>\<open>print\<close> applies to each argument.\<close>

fun py_str :: "scalar \<Rightarrow> string" where
  "py_str (SStr s) = s"
| "py_str (SInt i) = str_int i"
| "py_str (SBool b) = (if b then ''True'' else ''False'')"

text \<open>\<^verbatim>\<open>s.encode()\<close>: UTF-8, which for code points below 256 is one or two bytes.\<close>

definition encode_char :: "char \<Rightarrow> string" where
  "encode_char c =
     (let n = (of_char c :: nat)
      in if n < 128 then [c] else [char_of (192 + n div 64), char_of (128 + n mod 64)])"

definition encode :: "string \<Rightarrow> string" where
  "encode s = concat (map encode_char s)"

text \<open>
  \<^verbatim>\<open>value.encode()\<close> on a property value: only a \<^verbatim>\<open>str\<close> has the method; an
  \<^verbatim>\<open>int\<close> or a \<^verbatim>\<open>bool\<close> raises \<^verbatim>\<open>AttributeError\<close>.
\<close>

fun encode_scalar :: "scalar \<Rightarrow> error + string" where
  "encode_scalar (SStr s) = Inr (encode s)"
| "encode_scalar (SInt i) = Inl AttributeError"
| "encode_scalar (SBool b) = Inl AttributeError"

text \<open>
  \<^verbatim>\<open>str(b)\<close> for a \<^verbatim>\<open>bytes\<close> object \<^verbatim>\<open>b\<close> is its \<^verbatim>\<open>repr\<close>: the letter b, a quote,
  the bytes with quote, backslash, tab, newline, carriage return and
  non-printable bytes escaped, and the quote again. The quote is the single
  quote unless the bytes contain a single quote and no double quote.
\<close>

definition squote :: char where
  "squote = CHR 0x27"

definition dquote :: char where
  "dquote = CHR 0x22"

definition backslash :: char where
  "backslash = CHR 0x5C"

definition newline :: char where
  "newline = CHR 0x0A"

definition hex_digit :: "nat \<Rightarrow> char" where
  "hex_digit n = (if n < 10 then char_of (48 + n) else char_of (87 + n))"

definition repr_byte :: "char \<Rightarrow> char \<Rightarrow> string" where
  "repr_byte quote c =
     (let n = (of_char c :: nat)
      in if c = quote \<or> c = backslash then [backslash, c]
         else if n = 9 then [backslash, CHR ''t'']
         else if n = 10 then [backslash, CHR ''n'']
         else if n = 13 then [backslash, CHR ''r'']
         else if n < 32 \<or> 127 \<le> n then [backslash, CHR ''x'', hex_digit (n div 16), hex_digit (n mod 16)]
         else [c])"

definition bytes_repr :: "string \<Rightarrow> string" where
  "bytes_repr b =
     (let quote = (if squote \<in> set b \<and> dquote \<notin> set b then dquote else squote)
      in CHR ''b'' # quote # concat (map (repr_byte quote) b) @ [quote])"

section \<open>Patterns and \<^verbatim>\<open>re.match\<close>\<close>

text \<open>
  A filter is a regular expression of Python's \<^verbatim>\<open>re\<close> module, modelled in
  compiled form. \<open>Dot\<close> is \<^verbatim>\<open>.\<close> (any character but a newline), \<open>Cls\<close> a
  bracket class given by its ranges, \<open>Dollar\<close> the anchor \<^verbatim>\<open>$\<close> (the end of the
  string, or just before a newline that ends it). \<open>Zero\<close> (no string) and
  \<open>Eps\<close> (the empty string) only arise while matching.
\<close>

datatype rexp =
    Zero
  | Eps
  | Dollar
  | Dot
  | Lit char
  | Cls "(char \<times> char) list"
  | Seq rexp rexp
  | Alt rexp rexp
  | Star rexp
  | Plus rexp

definition in_range :: "char \<Rightarrow> char \<times> char \<Rightarrow> bool" where
  "in_range c r = ((of_char (fst r) :: nat) \<le> of_char c \<and> (of_char c :: nat) \<le> of_char (snd r))"

text \<open>\<open>nullable r rest\<close>: \<open>r\<close> matches the empty string where \<open>rest\<close> is the input left.\<close>

fun nullable :: "rexp \<Rightarrow> string \<Rightarrow> bool" where
  "nullable Zero rest = False"
| "nullable Eps rest = True"
| "nullable Dollar rest = (rest = [] \<or> rest = [newline])"
| "nullable Dot rest = False"
| "nullable (Lit a) rest = False"
| "nullable (Cls rs) rest = False"
| "nullable (Seq r s) rest = (nullable r rest \<and> nullable s rest)"
| "nullable (Alt r s) rest = (nullable r rest \<or> nullable s rest)"
| "nullable (Star r) rest = True"
| "nullable (Plus r) rest = nullable r rest"

text \<open>\<open>deriv c rest r\<close>: what is left of \<open>r\<close> once it has consumed \<open>c\<close>, the input after \<open>c\<close> being \<open>rest\<close>.\<close>

fun deriv :: "char \<Rightarrow> string \<Rightarrow> rexp \<Rightarrow> rexp" where
  "deriv c rest Zero = Zero"
| "deriv c rest Eps = Zero"
| "deriv c rest Dollar = Zero"
| "deriv c rest Dot = (if c = newline then Zero else Eps)"
| "deriv c rest (Lit a) = (if c = a then Eps else Zero)"
| "deriv c rest (Cls rs) = (if list_ex (in_range c) rs then Eps else Zero)"
| "deriv c rest (Seq r s) =
     (if nullable r (c # rest) then Alt (Seq (deriv c rest r) s) (deriv c rest s)
      else Seq (deriv c rest r) s)"
| "deriv c rest (Alt r s) = Alt (deriv c rest r) (deriv c rest s)"
| "deriv c rest (Star r) = Seq (deriv c rest r) (Star r)"
| "deriv c rest (Plus r) = Seq (deriv c rest r) (Star r)"

text \<open>
  \<open>re_match r key\<close> is \<^verbatim>\<open>re.match(r, key) is not None\<close>: some prefix of \<open>key\<close>,
  starting at position 0, matches \<open>r\<close>.
\<close>

fun re_match :: "rexp \<Rightarrow> string \<Rightarrow> bool" where
  "re_match r [] = nullable r []"
| "re_match r (c # cs) = (nullable r (c # cs) \<or> re_match (deriv c cs r) cs)"

text \<open>
  What a pattern means, stated without the matcher: \<open>accepts r u v\<close> says that
  \<open>r\<close> matches the string \<open>u\<close> when \<open>v\<close> is the input that follows \<open>u\<close>.
\<close>

inductive accepts :: "rexp \<Rightarrow> string \<Rightarrow> string \<Rightarrow> bool" where
  a_Eps: "accepts Eps [] v"
| a_Dollar: "v = [] \<or> v = [newline] \<Longrightarrow> accepts Dollar [] v"
| a_Dot: "c \<noteq> newline \<Longrightarrow> accepts Dot [c] v"
| a_Lit: "accepts (Lit c) [c] v"
| a_Cls: "list_ex (in_range c) rs \<Longrightarrow> accepts (Cls rs) [c] v"
| a_Seq: "accepts r u1 (u2 @ v) \<Longrightarrow> accepts s u2 v \<Longrightarrow> accepts (Seq r s) (u1 @ u2) v"
| a_AltL: "accepts r u v \<Longrightarrow> accepts (Alt r s) u v"
| a_AltR: "accepts s u v \<Longrightarrow> accepts (Alt r s) u v"
| a_Star0: "accepts (Star r) [] v"
| a_StarN: "accepts r u1 (u2 @ v) \<Longrightarrow> accepts (Star r) u2 v \<Longrightarrow> accepts (Star r) (u1 @ u2) v"
| a_Plus: "accepts r u1 (u2 @ v) \<Longrightarrow> accepts (Star r) u2 v \<Longrightarrow> accepts (Plus r) (u1 @ u2) v"

section \<open>Target rules, configuration and the world\<close>

text \<open>
  A target is a dict with the optional entries \<^verbatim>\<open>filter\<close>, \<^verbatim>\<open>target\<close>,
  \<^verbatim>\<open>format\<close> and \<^verbatim>\<open>properties\<close>; an absent entry is \<open>None\<close>. A dict of
  properties is an association list in insertion order.
\<close>

record target_rule =
  t_filter :: "rexp option"
  t_target :: "string option"
  t_format :: "string option"
  t_properties :: "(string \<times> scalar) list option"

record vcap_config =
  vc_loglevel :: "int option"
  vc_skip_ssl_validation :: "bool option"
  vc_targets :: "target_rule list option"

record property_source =
  ps_source :: "(string \<times> scalar) list option"

record config =
  cfg_propertySources :: "property_source list option"

record credentials =
  c_tags :: "string list option"
  c_access_token_uri :: "string option"
  c_uri :: "string option"
  c_client_id :: "string option"
  c_client_secret :: "string option"

record service_instance =
  i_tags :: "string list option"
  i_credentials :: "credentials option"

text \<open>
  What a text stream receives: a line written by \<^verbatim>\<open>print\<close>, or the text of a
  \<^verbatim>\<open>json.dump\<close> / \<^verbatim>\<open>json.dumps\<close> call, kept as the value that was dumped.
\<close>

datatype out_item =
    Line string
  | JsonProperties "(string \<times> scalar) list"
  | JsonService service_instance
  | JsonConfig config
  | VcapConfigLine vcap_config

text \<open>
  The world the script acts on: the two standard streams, the contents of the
  files, and the paths that \<^verbatim>\<open>open(path, 'wb')\<close> cannot open.
\<close>

record world =
  w_stdout :: "out_item list"
  w_stderr :: "out_item list"
  w_files :: "string \<rightharpoonup> string"
  w_unopenable :: "string set"

datatype pyfile = Stderr | Stdout | BinaryFile string

type_synonym result = "error option \<times> world"

text \<open>
  Writing to a file object. The standard streams are text streams. A file
  opened with mode \<^verbatim>\<open>'wb'\<close> is a binary stream: \<^verbatim>\<open>print\<close> and \<^verbatim>\<open>json.dump\<close>
  call its \<^verbatim>\<open>write\<close> with a \<^verbatim>\<open>str\<close>, which raises \<^verbatim>\<open>TypeError\<close>.
\<close>

fun emit :: "pyfile \<Rightarrow> out_item \<Rightarrow> world \<Rightarrow> result" where
  "emit Stderr x w = (None, w\<lparr>w_stderr := w_stderr w @ [x]\<rparr>)"
| "emit Stdout x w = (None, w\<lparr>w_stdout := w_stdout w @ [x]\<rparr>)"
| "emit (BinaryFile path) x w = (Some TypeError, w)"

definition print_to :: "pyfile \<Rightarrow> string \<Rightarrow> world \<Rightarrow> result" where
  "print_to file s w = emit file (Line s) w"

definition print_stderr :: "string \<Rightarrow> world \<Rightarrow> world" where
  "print_stderr s w = w\<lparr>w_stderr := w_stderr w @ [Line s]\<rparr>"

text \<open>A \<^verbatim>\<open>for\<close> loop whose body may raise: the first exception ends it.\<close>

fun for_each :: "('a \<Rightarrow> world \<Rightarrow> result) \<Rightarrow> 'a list \<Rightarrow> world \<Rightarrow> result" where
  "for_each body [] w = (None, w)"
| "for_each body (x # xs) w =
     (case body x w of
        (None, w') \<Rightarrow> for_each body xs w'
      | (Some e, w') \<Rightarrow> (Some e, w'))"

text \<open>
  \<^verbatim>\<open>with open(filename, 'wb') as property_file: body\<close>. Opening creates the file
  or truncates it; the file is closed on every path out of the body.
\<close>

definition with_open_wb :: "string \<Rightarrow> (pyfile \<Rightarrow> world \<Rightarrow> result) \<Rightarrow> world \<Rightarrow> result" where
  "with_open_wb filename body w =
     (if filename \<in> w_unopenable w then (Some OSError, w)
      else body (BinaryFile filename) (w\<lparr>w_files := (w_files w)(filename \<mapsto> [])\<rparr>))"

section \<open>Serializer and destination writer\<close>

text \<open>
  \<^verbatim>\<open>add_environment_variable\<close> prints the pair on standard output for the caller
  to export.
\<close>

definition add_environment_variable :: "string \<Rightarrow> scalar \<Rightarrow> world \<Rightarrow> result" where
  "add_environment_variable key value w = print_to Stdout (key @ '' '' @ py_str value) w"

text \<open>
  The body of the loop of the \<^verbatim>\<open>properties\<close>/\<^verbatim>\<open>text\<close> branch:
  \<^verbatim>\<open>print(key.encode() + b'=' + value.encode(), file=file)\<close>. The argument is a
  \<^verbatim>\<open>bytes\<close> object, so \<^verbatim>\<open>print\<close> writes its \<^verbatim>\<open>repr\<close>.
\<close>

definition write_property_line :: "pyfile \<Rightarrow> string \<times> scalar \<Rightarrow> world \<Rightarrow> result" where
  "write_property_line file kv w =
     (case encode_scalar (snd kv) of
        Inl e \<Rightarrow> (Some e, w)
      | Inr bv \<Rightarrow> print_to file (bytes_repr (encode (fst kv) @ ''='' @ bv)) w)"

definition write_property_file :: "pyfile \<Rightarrow> (string \<times> scalar) list \<Rightarrow> string \<Rightarrow> world \<Rightarrow> result" where
  "write_property_file file properties format w =
     (if format = ''json'' then emit file (JsonProperties properties) w
      else if format = ''yml'' then
        (case print_to file ''---'' w of
           (None, w') \<Rightarrow> for_each (\<lambda>kv. print_to file (fst kv @ '' '' @ py_str (snd kv))) properties w'
         | (Some e, w') \<Rightarrow> (Some e, w'))
      else if format \<in> set [''properties'', ''text''] then
        for_each (write_property_line file) properties w
      else print_to Stderr (''Illegal format '' @ format @ '' in VCAPX_CONFIG'') w)"

text \<open>\<^verbatim>\<open>filename.rsplit('.', 1)\<close>: split at the last occurrence of the separator.\<close>

definition rsplit1 :: "char \<Rightarrow> string \<Rightarrow> string list" where
  "rsplit1 c s =
     (if c \<in> set s
      then [rev (tl (dropWhile (\<lambda>x. x \<noteq> c) (rev s))), rev (takeWhile (\<lambda>x. x \<noteq> c) (rev s))]
      else [s])"

text \<open>
  \<^verbatim>\<open>target.get('properties', {})\<close> and \<^verbatim>\<open>target.get('target', 'stderr')\<close>, and
  the format of a file destination:
  \<^verbatim>\<open>target.get('format', parts[1] if len(parts) > 1 else 'properties')\<close>.
\<close>

definition get_properties :: "target_rule \<Rightarrow> (string \<times> scalar) list" where
  "get_properties target = (case t_properties target of None \<Rightarrow> [] | Some ps \<Rightarrow> ps)"

definition get_target :: "target_rule \<Rightarrow> string" where
  "get_target target = (case t_target target of None \<Rightarrow> ''stderr'' | Some d \<Rightarrow> d)"

definition file_format :: "target_rule \<Rightarrow> string \<Rightarrow> string" where
  "file_format target filename =
     (let parts = rsplit1 CHR ''.'' filename
      in case t_format target of
           Some f \<Rightarrow> f
         | None \<Rightarrow> (if length parts > 1 then parts ! 1 else ''properties''))"

text \<open>The body of the second loop of \<^verbatim>\<open>save_config_properties\<close>, for one target.\<close>

definition write_target :: "target_rule \<Rightarrow> world \<Rightarrow> result" where
  "write_target target w =
     (let properties = get_properties target
      in if length properties < 1 then (None, w)
         else
           let destination = get_target target
           in if destination = ''env'' then
                for_each (\<lambda>kv. add_environment_variable (fst kv) (snd kv)) properties w
              else if destination = ''stderr'' then
                write_property_file Stderr properties
                  (case t_format target of None \<Rightarrow> ''text'' | Some f \<Rightarrow> f) w
              else if destination = ''stdout'' then
                write_property_file Stdout properties
                  (case t_format target of None \<Rightarrow> ''text'' | Some f \<Rightarrow> f) w
              else if prefix ''file:'' destination then
                (let filename = drop 5 destination;
                     format = file_format target filename
                 in with_open_wb filename
                      (\<lambda>property_file. write_property_file property_file properties format) w)
              else print_to Stderr (''Illegal target type '' @ destination @ '' in VCAPX_CONFIG'') w)"

section \<open>Merge and routing\<close>

text \<open>The pattern of a target: \<^verbatim>\<open>target.get('filter', '.*')\<close>.\<close>

definition get_filter :: "target_rule \<Rightarrow> rexp" where
  "get_filter target = (case t_filter target of None \<Rightarrow> Star Dot | Some r \<Rightarrow> r)"

text \<open>
  The innermost loop, \<^verbatim>\<open>for target in targets\<close>, for one key and value: every
  target is tested, there is no \<^verbatim>\<open>break\<close>. The result is the targets as
  mutated, the flag \<^verbatim>\<open>used\<close> and the world.
\<close>

fun match_targets ::
  "int \<Rightarrow> string \<Rightarrow> scalar \<Rightarrow> target_rule list \<Rightarrow> world \<Rightarrow> target_rule list \<times> bool \<times> world" where
  "match_targets log_level key value [] w = ([], False, w)"
| "match_targets log_level key value (target # rest) w =
     (if re_match (get_filter target) key then
        (let target' = target\<lparr>t_target := Some (get_target target),
                               t_properties := Some (AList.update key value (get_properties target))\<rparr>;
             w' = (if log_level > 1 then print_stderr (key @ '' -> '' @ get_target target) w else w);
             (rest', used, w'') = match_targets log_level key value rest w'
         in (target' # rest', True, w''))
      else
        (let (rest', used, w') = match_targets log_level key value rest w
         in (target # rest', used, w')))"

definition route_property ::
  "int \<Rightarrow> string \<times> scalar \<Rightarrow> target_rule list \<times> world \<Rightarrow> target_rule list \<times> world" where
  "route_property log_level kv st =
     (let (targets', used, w') = match_targets log_level (fst kv) (snd kv) (fst st) (snd st)
      in if \<not> used \<and> log_level > 0 then
           (targets', print_stderr (''Property '' @ fst kv @
              '' was ignored because it did not match any target'') w')
         else (targets', w'))"

definition get_source :: "property_source \<Rightarrow> (string \<times> scalar) list" where
  "get_source sources = (case ps_source sources of None \<Rightarrow> [] | Some kvs \<Rightarrow> kvs)"

definition route_source ::
  "int \<Rightarrow> property_source \<Rightarrow> target_rule list \<times> world \<Rightarrow> target_rule list \<times> world" where
  "route_source log_level sources st = fold (route_property log_level) (get_source sources) st"

definition get_propertySources :: "config \<Rightarrow> property_source list" where
  "get_propertySources cfg = (case cfg_propertySources cfg of None \<Rightarrow> [] | Some ss \<Rightarrow> ss)"

text \<open>The first loop of \<^verbatim>\<open>save_config_properties\<close>, over the reversed sources.\<close>

definition route_config ::
  "int \<Rightarrow> config \<Rightarrow> target_rule list \<Rightarrow> world \<Rightarrow> target_rule list \<times> world" where
  "route_config log_level cfg targets w =
     fold (route_source log_level) (rev (get_propertySources cfg)) (targets, w)"

section \<open>\<^verbatim>\<open>save_config_properties\<close>\<close>

definition lower_alnum :: "(char \<times> char) list" where
  "lower_alnum = [(CHR ''a'', CHR ''z''), (CHR ''0'', CHR ''9'')]"

definition default_targets :: "target_rule list" where
  "default_targets =
     [\<lparr>t_filter = Some (Seq (Plus (Cls [(CHR ''0'', CHR ''9''), (CHR ''A'', CHR ''Z''),
                                        (CHR ''_'', CHR ''_'')])) Dollar),
       t_target = Some ''env'', t_format = None, t_properties = None\<rparr>,
      \<lparr>t_filter = Some (Seq (Plus (Seq (Plus (Cls lower_alnum)) (Lit CHR ''.'')))
                          (Seq (Plus (Cls lower_alnum)) Dollar)),
       t_target = Some ''file:config-server.properties'', t_format = Some ''properties'',
       t_properties = None\<rparr>,
      \<lparr>t_filter = Some (Seq (Plus (Cls lower_alnum)) Dollar),
       t_target = Some ''file:config-server.yml'', t_format = Some ''yml'',
       t_properties = None\<rparr>]"

text \<open>
  The whole function. The globals \<^verbatim>\<open>vcap_config\<close> and \<^verbatim>\<open>log_level\<close> are
  arguments; the result is the exception raised, if any, the updated
  \<^verbatim>\<open>vcap_config\<close> and the world. A list of targets taken from \<^verbatim>\<open>vcap_config\<close>
  is mutated in place, so it is updated there even when a write raises.
\<close>

definition save_config_properties ::
  "vcap_config \<Rightarrow> int \<Rightarrow> config \<Rightarrow> world \<Rightarrow> error option \<times> vcap_config \<times> world" where
  "save_config_properties vcap log_level cfg w =
     (let targets = (case vc_targets vcap of None \<Rightarrow> default_targets | Some ts \<Rightarrow> ts);
          (targets', w1) = route_config log_level cfg targets w
      in case for_each write_target targets' w1 of
           (Some e, w2) \<Rightarrow>
             (Some e, (case vc_targets vcap of None \<Rightarrow> vcap
                       | Some ts \<Rightarrow> vcap\<lparr>vc_targets := Some targets'\<rparr>), w2)
         | (None, w2) \<Rightarrow>
             (let vcap' = vcap\<lparr>vc_targets := Some targets'\<rparr>;
                  (err, w3) = emit Stdout (VcapConfigLine vcap') w2
              in (err, vcap', w3)))"

section \<open>Discovery, token acquisition and fetch\<close>

text \<open>
  The environment of a run: the three variables the script reads, as the JSON
  they hold (an unset variable is the empty object, every field \<open>None\<close>), and
  the answers of the two remote endpoints to \<^verbatim>\<open>urlopen\<close>.
\<close>

record vcap_application =
  va_application_name :: "string option"
  va_space_name :: "string option"

record appinfo =
  a_name :: string
  a_profile :: string

record token_response =
  tr_access_token :: "string option"
  tr_token_type :: "string option"

text \<open>
  What \<^verbatim>\<open>urlopen\<close> does: it raises \<^verbatim>\<open>URLError\<close> (no connection), it raises
  \<^verbatim>\<open>HTTPError\<close> (an error status, with the body of the answer and the text of
  the exception), or it returns a document.
\<close>

datatype 'a response = TransportError | HttpError string string | Reply 'a

record env =
  e_VCAPX_CONFIG :: vcap_config
  e_VCAP_APPLICATION :: vcap_application
  e_VCAP_SERVICES :: "(string \<times> service_instance list) list"
  e_token_endpoint :: "string \<Rightarrow> string \<Rightarrow> token_response response"
  e_config_endpoint :: "string \<Rightarrow> string option \<Rightarrow> config response"

definition get_application_info :: "env \<Rightarrow> world \<Rightarrow> (error + appinfo) \<times> world" where
  "get_application_info e w =
     (case va_application_name (e_VCAP_APPLICATION e) of
        None \<Rightarrow> (Inl (SystemExit 1),
                 print_stderr ''VCAP_APPLICATION must specify application_name'' w)
      | Some name \<Rightarrow>
          (Inr \<lparr>a_name = name,
                 a_profile = (case va_space_name (e_VCAP_APPLICATION e) of
                                None \<Rightarrow> ''default'' | Some p \<Rightarrow> p)\<rparr>, w))"

definition instance_tags :: "service_instance \<Rightarrow> string list" where
  "instance_tags inst =
     (case i_tags inst of None \<Rightarrow> [] | Some ts \<Rightarrow> ts) @
     (case i_credentials inst of
        None \<Rightarrow> []
      | Some c \<Rightarrow> (case c_tags c of None \<Rightarrow> [] | Some ts \<Rightarrow> ts))"

definition find_spring_config_service :: "env \<Rightarrow> service_instance option" where
  "find_spring_config_service e =
     find (\<lambda>inst. ''spring-cloud'' \<in> set (instance_tags inst) \<and>
                   ''configuration'' \<in> set (instance_tags inst))
       (concat (map snd (e_VCAP_SERVICES e)))"

text \<open>
  The header is \<^verbatim>\<open>Basic\<close> followed by the base64 text of \<^verbatim>\<open>client_id:client_secret\<close>;
  it is modelled by that string itself.
\<close>

definition createAuthHeader :: "credentials \<Rightarrow> string" where
  "createAuthHeader c =
     (case c_client_id c of None \<Rightarrow> [] | Some i \<Rightarrow> i) @ '':'' @
     (case c_client_secret c of None \<Rightarrow> [] | Some s \<Rightarrow> s)"

text \<open>No \<^verbatim>\<open>try\<close> surrounds the request: what \<^verbatim>\<open>urlopen\<close> raises leaves the function.\<close>

definition get_access_token :: "env \<Rightarrow> credentials \<Rightarrow> error + string option" where
  "get_access_token e c =
     (case c_access_token_uri c of
        None \<Rightarrow> Inr None
      | Some access_token_uri \<Rightarrow>
          (case e_token_endpoint e access_token_uri (createAuthHeader c) of
             TransportError \<Rightarrow> Inl URLError
           | HttpError body msg \<Rightarrow> Inl HTTPError
           | Reply r \<Rightarrow>
               (case tr_token_type r of
                  None \<Rightarrow> Inl TypeError
                | Some token_type \<Rightarrow>
                    (case tr_access_token r of
                       None \<Rightarrow> Inl TypeError
                     | Some access_token \<Rightarrow> Inr (Some (token_type @ '' '' @ access_token))))))"

definition empty_credentials :: credentials where
  "empty_credentials =
     \<lparr>c_tags = None, c_access_token_uri = None, c_uri = None,
      c_client_id = None, c_client_secret = None\<rparr>"

text \<open>
  \<^verbatim>\<open>get_spring_cloud_config\<close>. The handler of the fetch catches \<^verbatim>\<open>URLError\<close> and
  its subclass \<^verbatim>\<open>HTTPError\<close>; it calls \<^verbatim>\<open>err.read()\<close>, which only an
  \<^verbatim>\<open>HTTPError\<close> has, so a plain \<^verbatim>\<open>URLError\<close> raises \<^verbatim>\<open>AttributeError\<close> there.
\<close>

definition get_spring_cloud_config ::
  "env \<Rightarrow> vcap_config \<Rightarrow> int \<Rightarrow> service_instance \<Rightarrow> appinfo \<Rightarrow> world
     \<Rightarrow> error option \<times> vcap_config \<times> world" where
  "get_spring_cloud_config e vcap log_level service info w =
     (let w1 = (if log_level > 1
                then print_stderr [] (snd (emit Stderr (JsonService service)
                       (print_stderr ''spring-cloud-config:'' w)))
                else w);
          c = (case i_credentials service of None \<Rightarrow> empty_credentials | Some c \<Rightarrow> c)
      in case get_access_token e c of
           Inl err \<Rightarrow> (Some err, vcap, w1)
         | Inr access_token \<Rightarrow>
             (case c_uri c of
                None \<Rightarrow> (None, vcap,
                  print_stderr ''services of type spring-config-server must specify a uri'' w1)
              | Some uri0 \<Rightarrow>
                  (let uri = uri0 @ ''/'' @ a_name info @ ''/'' @ a_profile info;
                       w2 = (if log_level > 1 then print_stderr (''GET '' @ uri) w1 else w1)
                   in case e_config_endpoint e uri access_token of
                        TransportError \<Rightarrow> (Some AttributeError, vcap, w2)
                      | HttpError body msg \<Rightarrow>
                          (None, vcap, print_stderr msg (print_stderr (bytes_repr body) w2))
                      | Reply cfg \<Rightarrow>
                          (let w3 = (if log_level > 1
                                     then print_stderr [] (snd (emit Stderr (JsonConfig cfg) w2))
                                     else w2)
                           in save_config_properties vcap log_level cfg w3))))"

text \<open>
  \<^verbatim>\<open>main\<close>. \<^verbatim>\<open>get_vcap_config\<close> sets the globals from \<^verbatim>\<open>VCAPX_CONFIG\<close>; the
  result is the exception that leaves \<^verbatim>\<open>main\<close>, if any, with the final
  \<^verbatim>\<open>vcap_config\<close> and world.
\<close>

definition main :: "env \<Rightarrow> world \<Rightarrow> error option \<times> vcap_config \<times> world" where
  "main e w =
     (let vcap = e_VCAPX_CONFIG e;
          log_level = (case vc_loglevel vcap of None \<Rightarrow> 1 | Some l \<Rightarrow> l)
      in case get_application_info e w of
           (Inl err, w1) \<Rightarrow> (Some err, vcap, w1)
         | (Inr info, w1) \<Rightarrow>
             (case find_spring_config_service e of
                None \<Rightarrow> (None, vcap, w1)
              | Some service \<Rightarrow> get_spring_cloud_config e vcap log_level service info w1))"

text \<open>
  The status of the process: 0 when \<^verbatim>\<open>main\<close> returns, the argument of
  \<^verbatim>\<open>sys.exit\<close>, and 1 when another exception leaves \<^verbatim>\<open>main\<close> uncaught.
\<close>

fun exit_status :: "error option \<Rightarrow> int" where
  "exit_status None = 0"
| "exit_status (Some (SystemExit n)) = n"
| "exit_status (Some err) = 1"

section \<open>Notions used in the statements\<close>

text \<open>
  What the innermost loop does to one target: a target whose pattern matches
  the key gets its \<^verbatim>\<open>target\<close> entry filled in and the key stored in its
  \<^verbatim>\<open>properties\<close>; any other target is left as it is.
\<close>

definition assign :: "string \<Rightarrow> scalar \<Rightarrow> target_rule \<Rightarrow> target_rule" where
  "assign key value target =
     (if re_match (get_filter target) key
      then target\<lparr>t_target := Some (get_target target),
                  t_properties := Some (AList.update key value (get_properties target))\<rparr>
      else target)"

text \<open>The key/value pairs of a configuration in the order the first loop visits them.\<close>

definition replay :: "config \<Rightarrow> (string \<times> scalar) list" where
  "replay cfg = concat (map get_source (rev (get_propertySources cfg)))"

text \<open>The format names \<^verbatim>\<open>write_property_file\<close> knows.\<close>

definition legal_formats :: "string set" where
  "legal_formats = {''json'', ''yml'', ''properties'', ''text''}"

text \<open>
  The reader the specification describes for the round trip: a line is split
  at its first \<^verbatim>\<open>=\<close> into a key and a value.
\<close>

definition split_line :: "out_item \<Rightarrow> (string \<times> string) option" where
  "split_line item =
     (case item of
        Line l \<Rightarrow>
          (if CHR ''='' \<in> set l
           then Some (takeWhile (\<lambda>c. c \<noteq> CHR ''='') l, tl (dropWhile (\<lambda>c. c \<noteq> CHR ''='') l))
           else None)
      | _ \<Rightarrow> None)"

subsection \<open>Concrete inputs\<close>

definition empty_world :: world where
  "empty_world = \<lparr>w_stdout = [], w_stderr = [], w_files = Map.empty, w_unopenable = {}\<rparr>"

text \<open>A world in which the file \<^verbatim>\<open>out.cfg\<close> exists and holds the bytes \<^verbatim>\<open>old\<close>.\<close>

definition stale_world :: world where
  "stale_world = \<lparr>w_stdout = [], w_stderr = [], w_files = [''out.cfg'' \<mapsto> ''old''], w_unopenable = {}\<rparr>"

text \<open>A world in which the directory of \<^verbatim>\<open>/no/such/dir/out.yml\<close> does not exist.\<close>

definition locked_world :: world where
  "locked_world = \<lparr>w_stdout = [], w_stderr = [], w_files = Map.empty, w_unopenable = {''/no/such/dir/out.yml''}\<rparr>"

definition empty_vcap_config :: vcap_config where
  "empty_vcap_config = \<lparr>vc_loglevel = None, vc_skip_ssl_validation = None, vc_targets = None\<rparr>"

text \<open>The two property sources of the end-to-end scenario, most specific first.\<close>

definition scenario_config :: config where
  "scenario_config =
     \<lparr>cfg_propertySources = Some
        [\<lparr>ps_source = Some [(''a.b'', SStr ''x'')]\<rparr>,
         \<lparr>ps_source = Some [(''a.b'', SStr ''y''), (''C'', SStr ''z'')]\<rparr>]\<rparr>"

definition digits_config :: config where
  "digits_config = \<lparr>cfg_propertySources = Some [\<lparr>ps_source = Some [(''42'', SStr ''x'')]\<rparr>]\<rparr>"

definition catch_all_config :: config where
  "catch_all_config = \<lparr>cfg_propertySources = Some [\<lparr>ps_source = Some [(''Any.Key'', SStr ''v'')]\<rparr>]\<rparr>"

definition one_property :: "(string \<times> scalar) list" where
  "one_property = [(''k'', SStr ''v'')]"

definition roundtrip_properties :: "(string \<times> scalar) list" where
  "roundtrip_properties = [(''a'', SStr ''1''), (''b'', SStr ''2'')]"

text \<open>A target with no \<^verbatim>\<open>filter\<close> entry, and the target with no entry at all.\<close>

definition rule_for :: "string \<Rightarrow> string option \<Rightarrow> (string \<times> scalar) list option \<Rightarrow> target_rule" where
  "rule_for destination fmt ps =
     \<lparr>t_filter = None, t_target = Some destination, t_format = fmt, t_properties = ps\<rparr>"

definition bare_rule :: target_rule where
  "bare_rule = \<lparr>t_filter = None, t_target = None, t_format = None, t_properties = None\<rparr>"

definition isolation_targets :: "target_rule list" where
  "isolation_targets = [rule_for ''file:/no/such/dir/out.yml'' None None, rule_for ''env'' None None]"

definition isolation_vcap :: vcap_config where
  "isolation_vcap =
     \<lparr>vc_loglevel = None, vc_skip_ssl_validation = None, vc_targets = Some isolation_targets\<rparr>"

text \<open>
  An application bound to a tagged configuration service whose credentials
  name a token endpoint; the token endpoint cannot be reached. In the second
  environment the token endpoint answers and the config server cannot be
  reached.
\<close>

definition token_failure_env :: env where
  "token_failure_env =
     \<lparr>e_VCAPX_CONFIG = empty_vcap_config,
      e_VCAP_APPLICATION = \<lparr>va_application_name = Some ''app'', va_space_name = None\<rparr>,
      e_VCAP_SERVICES =
        [(''p-config-server'',
          [\<lparr>i_tags = Some [''configuration'', ''spring-cloud''],
            i_credentials = Some
              \<lparr>c_tags = None, c_access_token_uri = Some ''https://uaa.example/oauth/token'',
               c_uri = Some ''https://config.example'', c_client_id = Some ''id'',
               c_client_secret = Some ''secret''\<rparr>\<rparr>])],
      e_token_endpoint = (\<lambda>uri auth. TransportError),
      e_config_endpoint = (\<lambda>uri auth. Reply scenario_config)\<rparr>"

definition fetch_failure_env :: env where
  "fetch_failure_env =
     token_failure_env
       \<lparr>e_token_endpoint :=
          (\<lambda>uri auth. Reply \<lparr>tr_access_token = Some ''t0k3n'', tr_token_type = Some ''bearer''\<rparr>),
        e_config_endpoint := (\<lambda>uri auth. TransportError)\<rparr>"

text \<open>The lines \<^verbatim>\<open>add_environment_variable\<close> prints for a bucket.\<close>

definition env_lines :: "(string \<times> scalar) list \<Rightarrow> out_item list" where
  "env_lines ps = map (\<lambda>kv. Line (fst kv @ '' '' @ py_str (snd kv))) ps"

text \<open>A source whose only value is a number, and a configuration whose only target has no entry.\<close>

definition number_config :: config where
  "number_config = \<lparr>cfg_propertySources = Some [\<lparr>ps_source = Some [(''Any.Key'', SInt 5)]\<rparr>]\<rparr>"

definition bare_vcap :: vcap_config where
  "bare_vcap = \<lparr>vc_loglevel = None, vc_skip_ssl_validation = None, vc_targets = Some [bare_rule]\<rparr>"

text \<open>
  Four populated targets: an illegal destination, an illegal format on a
  stream, an illegal inferred format on a file, and an illegal format on
  \<^verbatim>\<open>env\<close>.
\<close>

definition mixed_targets :: "target_rule list" where
  "mixed_targets =
     [rule_for ''ftp:x'' None (Some one_property),
      rule_for ''stdout'' (Some ''bogus'') (Some one_property),
      rule_for ''file:out.cfg'' None (Some one_property),
      rule_for ''env'' (Some ''bogus'') (Some one_property)]"

section \<open>The matcher finds a match exactly when the pattern has one\<close>

inductive_cases a_ZeroE: "accepts Zero u v"
inductive_cases a_EpsE: "accepts Eps u v"
inductive_cases a_DollarE: "accepts Dollar u v"
inductive_cases a_DotE: "accepts Dot u v"
inductive_cases a_LitE: "accepts (Lit c) u v"
inductive_cases a_ClsE: "accepts (Cls rs) u v"
inductive_cases a_SeqE: "accepts (Seq r s) u v"
inductive_cases a_AltE: "accepts (Alt r s) u v"
inductive_cases a_PlusE: "accepts (Plus r) u v"

lemma accepts_nullable: "accepts r u v \<Longrightarrow> u = [] \<Longrightarrow> nullable r v"
  by (induction rule: accepts.induct) auto

lemma nullable_accepts: "nullable r v \<Longrightarrow> accepts r [] v"
proof (induction r)
  case (Seq r s)
  then have "accepts r [] ([] @ v)" and "accepts s [] v" by simp_all
  then have "accepts (Seq r s) ([] @ []) v" by (rule a_Seq)
  then show ?case by simp
next
  case (Plus r)
  then have "accepts r [] ([] @ v)" by simp
  then have "accepts (Plus r) ([] @ []) v" using a_Star0 by (rule a_Plus)
  then show ?case by simp
qed (auto intro: accepts.intros)

lemma nullable_iff: "nullable r v \<longleftrightarrow> accepts r [] v"
  using accepts_nullable nullable_accepts by blast

lemma star_first_iteration:
  "accepts r0 w v \<Longrightarrow> r0 = Star r \<Longrightarrow> w = c # u \<Longrightarrow>
     \<exists>u1 u2. u = u1 @ u2 \<and> accepts r (c # u1) (u2 @ v) \<and> accepts (Star r) u2 v"
proof (induction arbitrary: u rule: accepts.induct)
  case (a_StarN r' u1 u2 v)
  show ?case
  proof (cases u1)
    case Nil
    with a_StarN show ?thesis by simp
  next
    case (Cons a u1')
    with a_StarN.prems a_StarN.hyps show ?thesis by auto
  qed
qed simp_all

lemma deriv_iff: "accepts (deriv c (u @ v) r) u v \<longleftrightarrow> accepts r (c # u) v"
proof (induction r arbitrary: u v)
  case Zero
  show ?case by (auto elim: a_ZeroE)
next
  case Eps
  show ?case by (auto elim: a_ZeroE a_EpsE)
next
  case Dollar
  show ?case by (auto elim: a_ZeroE a_DollarE)
next
  case Dot
  show ?case by (auto elim: a_ZeroE a_EpsE a_DotE intro: accepts.intros)
next
  case (Lit a)
  show ?case by (auto elim: a_ZeroE a_EpsE a_LitE intro: accepts.intros)
next
  case (Cls rs)
  show ?case by (auto elim: a_ZeroE a_EpsE a_ClsE intro: accepts.intros)
next
  case (Alt r s)
  then show ?case by (auto elim!: a_AltE intro: accepts.intros)
next
  case (Seq r s)
  show ?case
  proof
    assume l: "accepts (deriv c (u @ v) (Seq r s)) u v"
    have from_seq: "accepts (Seq r s) (c # u) v" if "accepts (Seq (deriv c (u @ v) r) s) u v"
      using that
    proof (rule a_SeqE)
      fix u1 u2
      assume u: "u = u1 @ u2" and a: "accepts (deriv c (u @ v) r) u1 (u2 @ v)" and b: "accepts s u2 v"
      from a u have "accepts (deriv c (u1 @ (u2 @ v)) r) u1 (u2 @ v)" by simp
      then have "accepts r (c # u1) (u2 @ v)" using Seq.IH(1) by blast
      then have "accepts (Seq r s) ((c # u1) @ u2) v" using b by (rule a_Seq)
      with u show ?thesis by simp
    qed
    have from_s: "accepts (Seq r s) (c # u) v"
      if n: "nullable r (c # u @ v)" and d: "accepts (deriv c (u @ v) s) u v"
    proof -
      from n have "accepts r [] ((c # u) @ v)" by (simp add: nullable_iff)
      moreover from d have "accepts s (c # u) v" using Seq.IH(2) by blast
      ultimately have "accepts (Seq r s) ([] @ (c # u)) v" by (rule a_Seq)
      then show ?thesis by simp
    qed
    show "accepts (Seq r s) (c # u) v"
    proof (cases "nullable r (c # u @ v)")
      case True
      with l have "accepts (Alt (Seq (deriv c (u @ v) r) s) (deriv c (u @ v) s)) u v" by simp
      then show ?thesis using from_seq from_s [OF True] by (auto elim: a_AltE)
    next
      case False
      with l show ?thesis using from_seq by simp
    qed
  next
    assume "accepts (Seq r s) (c # u) v"
    then show "accepts (deriv c (u @ v) (Seq r s)) u v"
    proof (rule a_SeqE)
      fix u1 u2
      assume u: "c # u = u1 @ u2" and a: "accepts r u1 (u2 @ v)" and b: "accepts s u2 v"
      show ?thesis
      proof (cases u1)
        case Nil
        with u a b have n: "nullable r (c # u @ v)" and "accepts s (c # u) v"
          by (auto simp: nullable_iff)
        then have "accepts (deriv c (u @ v) s) u v" using Seq.IH(2) by blast
        with n show ?thesis by (auto intro: a_AltR)
      next
        case (Cons a' u1')
        with u have eq: "a' = c" "u = u1' @ u2" by simp_all
        with a Cons have "accepts (deriv c (u1' @ (u2 @ v)) r) u1' (u2 @ v)" using Seq.IH(1) by blast
        then have "accepts (Seq (deriv c (u1' @ (u2 @ v)) r) s) (u1' @ u2) v" using b by (rule a_Seq)
        with eq show ?thesis by (auto intro: a_AltL)
      qed
    qed
  qed
next
  case (Star r)
  show ?case
  proof
    assume "accepts (deriv c (u @ v) (Star r)) u v"
    then have "accepts (Seq (deriv c (u @ v) r) (Star r)) u v" by simp
    then show "accepts (Star r) (c # u) v"
    proof (rule a_SeqE)
      fix u1 u2
      assume u: "u = u1 @ u2" and a: "accepts (deriv c (u @ v) r) u1 (u2 @ v)" and b: "accepts (Star r) u2 v"
      from a u have "accepts (deriv c (u1 @ (u2 @ v)) r) u1 (u2 @ v)" by simp
      then have "accepts r (c # u1) (u2 @ v)" using Star.IH by blast
      then have "accepts (Star r) ((c # u1) @ u2) v" using b by (rule a_StarN)
      with u show ?thesis by simp
    qed
  next
    assume "accepts (Star r) (c # u) v"
    then obtain u1 u2 where u: "u = u1 @ u2" and a: "accepts r (c # u1) (u2 @ v)"
      and b: "accepts (Star r) u2 v"
      using star_first_iteration by blast
    from a have "accepts (deriv c (u1 @ (u2 @ v)) r) u1 (u2 @ v)" using Star.IH by blast
    then have "accepts (Seq (deriv c (u1 @ (u2 @ v)) r) (Star r)) (u1 @ u2) v" using b by (rule a_Seq)
    with u show "accepts (deriv c (u @ v) (Star r)) u v" by simp
  qed
next
  case (Plus r)
  show ?case
  proof
    assume "accepts (deriv c (u @ v) (Plus r)) u v"
    then have "accepts (Seq (deriv c (u @ v) r) (Star r)) u v" by simp
    then show "accepts (Plus r) (c # u) v"
    proof (rule a_SeqE)
      fix u1 u2
      assume u: "u = u1 @ u2" and a: "accepts (deriv c (u @ v) r) u1 (u2 @ v)" and b: "accepts (Star r) u2 v"
      from a u have "accepts (deriv c (u1 @ (u2 @ v)) r) u1 (u2 @ v)" by simp
      then have "accepts r (c # u1) (u2 @ v)" using Plus.IH by blast
      then have "accepts (Plus r) ((c # u1) @ u2) v" using b by (rule a_Plus)
      with u show ?thesis by simp
    qed
  next
    assume "accepts (Plus r) (c # u) v"
    then have "accepts (Star r) (c # u) v"
      by (auto elim!: a_PlusE intro: a_StarN)
    then obtain u1 u2 where u: "u = u1 @ u2" and a: "accepts r (c # u1) (u2 @ v)"
      and b: "accepts (Star r) u2 v"
      using star_first_iteration by blast
    from a have "accepts (deriv c (u1 @ (u2 @ v)) r) u1 (u2 @ v)" using Plus.IH by blast
    then have "accepts (Seq (deriv c (u1 @ (u2 @ v)) r) (Star r)) (u1 @ u2) v" using b by (rule a_Seq)
    with u show "accepts (deriv c (u @ v) (Plus r)) u v" by simp
  qed
qed

lemma re_match_iff: "re_match r key \<longleftrightarrow> (\<exists>u v. key = u @ v \<and> accepts r u v)"
proof (induction key arbitrary: r)
  case Nil
  show ?case by (simp add: nullable_iff)
next
  case (Cons c cs)
  have "(\<exists>u v. c # cs = u @ v \<and> accepts r u v) \<longleftrightarrow>
        accepts r [] (c # cs) \<or> (\<exists>u v. cs = u @ v \<and> accepts r (c # u) v)"
    by (auto simp: Cons_eq_append_conv)
  also have "\<dots> \<longleftrightarrow> nullable r (c # cs) \<or> (\<exists>u v. cs = u @ v \<and> accepts (deriv c cs r) u v)"
    using deriv_iff by (auto simp: nullable_iff)
  also have "\<dots> \<longleftrightarrow> re_match r (c # cs)"
    using Cons.IH by simp
  finally show ?case by simp
qed

section \<open>Routing acts on each target independently\<close>

lemma match_targets_fst:
  "fst (match_targets ll key value targets w) = map (assign key value) targets"
  by (induction targets arbitrary: w) (simp_all add: assign_def case_prod_beta Let_def)

lemma match_targets_used:
  "fst (snd (match_targets ll key value targets w)) = (\<exists>t \<in> set targets. re_match (get_filter t) key)"
  by (induction targets arbitrary: w) (simp_all add: case_prod_beta Let_def)

lemma route_property_fst:
  "fst (route_property ll kv st) = map (assign (fst kv) (snd kv)) (fst st)"
  by (simp add: route_property_def case_prod_beta Let_def match_targets_fst)

lemma fold_route_property_fst:
  "fst (fold (route_property ll) kvs st) = fold (\<lambda>kv. map (assign (fst kv) (snd kv))) kvs (fst st)"
  by (induction kvs arbitrary: st) (simp_all add: route_property_fst)

lemma fold_route_source_fst:
  "fst (fold (route_source ll) srcs st) =
     fold (\<lambda>kv. map (assign (fst kv) (snd kv))) (concat (map get_source srcs)) (fst st)"
  by (induction srcs arbitrary: st) (simp_all add: route_source_def fold_route_property_fst)

lemma fold_map_assign:
  "fold (\<lambda>kv. map (assign (fst kv) (snd kv))) kvs ts =
     map (fold (\<lambda>kv. assign (fst kv) (snd kv)) kvs) ts"
  by (induction kvs arbitrary: ts) simp_all

lemma route_config_fst:
  "fst (route_config ll cfg targets w) =
     map (fold (\<lambda>kv. assign (fst kv) (snd kv)) (replay cfg)) targets"
  by (simp add: route_config_def fold_route_source_fst fold_map_assign replay_def)

lemma get_filter_assign [simp]: "get_filter (assign k v t) = get_filter t"
  by (simp add: assign_def get_filter_def)

lemma get_target_assign [simp]: "get_target (assign k v t) = get_target t"
  by (simp add: assign_def get_target_def)

lemma t_format_assign [simp]: "t_format (assign k v t) = t_format t"
  by (simp add: assign_def)

lemma get_properties_assign:
  "get_properties (assign k v t) =
     (if re_match (get_filter t) k then AList.update k v (get_properties t) else get_properties t)"
  by (simp add: assign_def get_properties_def)

lemma get_filter_fold_assign [simp]:
  "get_filter (fold (\<lambda>kv. assign (fst kv) (snd kv)) kvs t) = get_filter t"
  by (induction kvs arbitrary: t) simp_all

lemma get_target_fold_assign [simp]:
  "get_target (fold (\<lambda>kv. assign (fst kv) (snd kv)) kvs t) = get_target t"
  by (induction kvs arbitrary: t) simp_all

lemma t_format_fold_assign [simp]:
  "t_format (fold (\<lambda>kv. assign (fst kv) (snd kv)) kvs t) = t_format t"
  by (induction kvs arbitrary: t) simp_all

lemma map_of_fold_assign:
  "map_of (get_properties (fold (\<lambda>kv. assign (fst kv) (snd kv)) kvs t)) =
     map_of (get_properties t) ++ map_of (rev (filter (\<lambda>kv. re_match (get_filter t) (fst kv)) kvs))"
proof (induction kvs arbitrary: t)
  case Nil
  show ?case by simp
next
  case (Cons kv kvs)
  show ?case
  proof (cases "re_match (get_filter t) (fst kv)")
    case True
    then show ?thesis
      by (intro ext) (simp add: Cons.IH get_properties_assign update_conv' map_add_def split: option.splits)
  next
    case False
    then show ?thesis
      by (simp add: Cons.IH get_properties_assign)
  qed
qed

lemma keys_fold_assign:
  "fst ` set (get_properties (fold (\<lambda>kv. assign (fst kv) (snd kv)) kvs t)) =
     fst ` set (get_properties t) \<union> {k \<in> fst ` set kvs. re_match (get_filter t) k}"
proof (induction kvs arbitrary: t)
  case Nil
  show ?case by simp
next
  case (Cons kv kvs)
  show ?case
    by (auto simp: Cons.IH get_properties_assign dom_update)
qed

lemma re_match_nullable: "nullable r key \<Longrightarrow> re_match r key"
  by (cases key) simp_all

lemma re_match_Star [simp]: "re_match (Star r) key"
  by (rule re_match_nullable) simp

lemma map_of_rev_distinct:
  "distinct (map fst xs) \<Longrightarrow> map_of (rev xs) = map_of xs"
proof (induction xs)
  case Nil
  show ?case by simp
next
  case (Cons x xs)
  then have "fst x \<notin> dom (map_of xs)"
    by (simp add: dom_map_of_conv_image_fst)
  then have "map_of xs (fst x) = None"
    by blast
  with Cons show ?case
    by (intro ext) (auto simp: map_add_def split: option.splits)
qed

lemma map_of_concat_first:
  "i < length xss \<Longrightarrow> \<forall>h<i. k \<notin> fst ` set (xss ! h) \<Longrightarrow> map_of (xss ! i) k = Some v
     \<Longrightarrow> map_of (concat xss) k = Some v"
proof (induction xss arbitrary: i)
  case Nil
  then show ?case by simp
next
  case (Cons xs xss)
  show ?case
  proof (cases i)
    case 0
    with Cons.prems show ?thesis by (simp add: map_add_def)
  next
    case (Suc j)
    have "0 < i" using Suc by simp
    with Cons.prems(2) have "k \<notin> fst ` set ((xs # xss) ! 0)"
      by blast
    then have "k \<notin> fst ` set xs"
      by simp
    then have none: "map_of xs k = None"
      by (simp add: map_of_eq_None_iff)
    have "map_of (concat xss) k = Some v"
    proof (rule Cons.IH)
      show "j < length xss" using Cons.prems Suc by simp
      show "\<forall>h<j. k \<notin> fst ` set (xss ! h)"
      proof (intro allI impI)
        fix h assume "h < j"
        then have "Suc h < i" using Suc by simp
        with Cons.prems(2) have "k \<notin> fst ` set ((xs # xss) ! Suc h)" by blast
        then show "k \<notin> fst ` set (xss ! h)" by simp
      qed
      show "map_of (xss ! j) k = Some v" using Cons.prems Suc by simp
    qed
    with none show ?thesis by (simp add: map_add_def)
  qed
qed

lemma keys_replay:
  "fst ` set (replay cfg) = (\<Union>s \<in> set (get_propertySources cfg). fst ` set (get_source s))"
  by (auto simp: replay_def)

lemma route_config_nth:
  assumes "route_config ll cfg targets w = (targets', w')" and "r < length targets"
  shows "targets' ! r = fold (\<lambda>kv. assign (fst kv) (snd kv)) (replay cfg) (targets ! r)"
    and "length targets' = length targets"
proof -
  have "targets' = map (fold (\<lambda>kv. assign (fst kv) (snd kv)) (replay cfg)) targets"
    using route_config_fst [of ll cfg targets w] assms(1) by simp
  then show "targets' ! r = fold (\<lambda>kv. assign (fst kv) (snd kv)) (replay cfg) (targets ! r)"
    and "length targets' = length targets"
    using assms(2) by simp_all
qed

lemma map_of_rev_replay:
  assumes "i < length (get_propertySources cfg)"
    and "distinct (map fst (get_source (get_propertySources cfg ! i)))"
    and "map_of (get_source (get_propertySources cfg ! i)) k = Some v"
    and "\<forall>h<i. k \<notin> fst ` set (get_source (get_propertySources cfg ! h))"
    and "P k"
  shows "map_of (rev (filter (\<lambda>kv. P (fst kv)) (replay cfg))) k = Some v"
proof -
  let ?srcs = "get_propertySources cfg"
  let ?xss = "map (\<lambda>s. filter (\<lambda>kv. P (fst kv)) (rev (get_source s))) ?srcs"
  have eq: "rev (filter (\<lambda>kv. P (fst kv)) (replay cfg)) = concat ?xss"
    by (simp add: replay_def rev_filter rev_concat filter_concat rev_map comp_def)
  have "map_of (concat ?xss) k = Some v"
  proof (rule map_of_concat_first [where i = i])
    show "i < length ?xss" using assms(1) by simp
    show "\<forall>h<i. k \<notin> fst ` set (?xss ! h)"
      using assms(1,4) by auto
    have "map_of (rev (get_source (?srcs ! i))) k = Some v"
      using assms(2,3) by (simp add: map_of_rev_distinct)
    then show "map_of (?xss ! i) k = Some v"
      using assms(1,5) by (simp add: map_of_filter restrict_map_def)
  qed
  with eq show ?thesis by simp
qed

section \<open>The write loop\<close>

lemma rsplit1_last:
  assumes "c \<notin> set ext"
  shows "rsplit1 c (base @ c # ext) = [base, ext]"
proof -
  have "takeWhile (\<lambda>x. x \<noteq> c) (rev ext @ c # rev base) =
          rev ext @ takeWhile (\<lambda>x. x \<noteq> c) (c # rev base)"
    by (rule takeWhile_append2) (use assms in auto)
  then have tw: "takeWhile (\<lambda>x. x \<noteq> c) (rev ext @ c # rev base) = rev ext"
    by simp
  have "dropWhile (\<lambda>x. x \<noteq> c) (rev ext @ c # rev base) =
          dropWhile (\<lambda>x. x \<noteq> c) (c # rev base)"
    by (rule dropWhile_append2) (use assms in auto)
  then have dw: "dropWhile (\<lambda>x. x \<noteq> c) (rev ext @ c # rev base) = c # rev base"
    by simp
  show ?thesis
    by (simp add: rsplit1_def tw dw)
qed

lemma rsplit1_none: "c \<notin> set s \<Longrightarrow> rsplit1 c s = [s]"
  by (simp add: rsplit1_def)

lemma write_target_file:
  assumes "get_properties target \<noteq> []" and "t_target target = Some (''file:'' @ filename)"
  shows "write_target target w =
           with_open_wb filename
             (\<lambda>property_file. write_property_file property_file (get_properties target)
                (file_format target filename)) w"
  using assms by (simp add: write_target_def get_target_def Let_def)

lemma write_target_stderr:
  assumes "get_properties target \<noteq> []" and "get_target target = ''stderr''"
  shows "write_target target w =
           write_property_file Stderr (get_properties target)
             (case t_format target of None \<Rightarrow> ''text'' | Some f \<Rightarrow> f) w"
  using assms by (simp add: write_target_def Let_def)

lemma write_property_file_illegal:
  "format \<notin> legal_formats \<Longrightarrow>
     write_property_file file properties format w =
       (None, print_stderr (''Illegal format '' @ format @ '' in VCAPX_CONFIG'') w)"
  by (simp add: write_property_file_def legal_formats_def print_to_def print_stderr_def)

lemma write_target_illegal_destination:
  assumes "get_properties t \<noteq> []"
    and "get_target t \<notin> {''env'', ''stderr'', ''stdout''}" and "\<not> prefix ''file:'' (get_target t)"
  shows "write_target t w =
           (None, print_stderr (''Illegal target type '' @ get_target t @ '' in VCAPX_CONFIG'') w)"
  using assms by (simp add: write_target_def Let_def print_to_def print_stderr_def)

lemma write_target_stream_illegal_format:
  assumes "get_properties t \<noteq> []"
    and "get_target t \<in> {''stderr'', ''stdout''}" and "t_format t = Some format"
    and "format \<notin> legal_formats"
  shows "write_target t w =
           (None, print_stderr (''Illegal format '' @ format @ '' in VCAPX_CONFIG'') w)"
  using assms write_property_file_illegal [OF assms(4)]
  by (auto simp: write_target_def Let_def)

lemma for_each_step_ok:
  "body x w = (None, w1) \<Longrightarrow> for_each body (x # xs) w = for_each body xs w1"
  by simp

lemma for_each_emit_Stderr:
  "fst (for_each (\<lambda>x. print_to Stderr (f x)) xs w) = None \<and>
   w_stdout (snd (for_each (\<lambda>x. print_to Stderr (f x)) xs w)) = w_stdout w \<and>
   w_files (snd (for_each (\<lambda>x. print_to Stderr (f x)) xs w)) = w_files w"
  by (induction xs arbitrary: w) (simp_all add: print_to_def)

lemma write_property_line_Stderr:
  "w_stdout (snd (write_property_line Stderr kv w)) = w_stdout w \<and>
   w_files (snd (write_property_line Stderr kv w)) = w_files w"
  by (simp add: write_property_line_def print_to_def split: sum.splits)

lemma for_each_property_line_Stderr:
  "w_stdout (snd (for_each (write_property_line Stderr) xs w)) = w_stdout w \<and>
   w_files (snd (for_each (write_property_line Stderr) xs w)) = w_files w"
proof (induction xs arbitrary: w)
  case Nil
  show ?case by simp
next
  case (Cons x xs)
  show ?case
  proof (cases "write_property_line Stderr x w")
    case (Pair err w1)
    with write_property_line_Stderr [of x w]
    have keep: "w_stdout w1 = w_stdout w" "w_files w1 = w_files w" by simp_all
    show ?thesis
    proof (cases err)
      case None
      with Pair keep Cons.IH [of w1] show ?thesis by simp
    next
      case (Some e)
      with Pair keep show ?thesis by simp
    qed
  qed
qed

lemma write_property_file_Stderr_only:
  "w_stdout (snd (write_property_file Stderr properties format w)) = w_stdout w \<and>
   w_files (snd (write_property_file Stderr properties format w)) = w_files w"
  using for_each_emit_Stderr [of "\<lambda>kv. fst kv @ '' '' @ py_str (snd kv)" properties
          "w\<lparr>w_stderr := w_stderr w @ [Line ''---'']\<rparr>"]
        for_each_property_line_Stderr [of properties w]
  by (simp add: write_property_file_def print_to_def)

lemma get_target_route_config:
  assumes "route_config ll cfg targets w = (targets', w')" and "r < length targets"
  shows "get_target (targets' ! r) = get_target (targets ! r)"
    and "t_format (targets' ! r) = t_format (targets ! r)"
  using route_config_nth(1) [OF assms] by simp_all

lemma for_each_append:
  "for_each body (xs @ ys) w =
     (case for_each body xs w of
        (None, w') \<Rightarrow> for_each body ys w'
      | (Some e, w') \<Rightarrow> (Some e, w'))"
proof (induction xs arbitrary: w)
  case Nil
  show ?case by simp
next
  case (Cons x xs)
  show ?case
  proof (cases "body x w")
    case (Pair err w1)
    show ?thesis
    proof (cases err)
      case None
      with Pair Cons.IH [of w1] show ?thesis by simp
    next
      case (Some e)
      with Pair show ?thesis by simp
    qed
  qed
qed

lemma for_each_after_prefix:
  "for_each body pre w0 = (None, w) \<Longrightarrow> for_each body (pre @ ys) w0 = for_each body ys w"
  by (simp add: for_each_append)

lemma for_each_env:
  "for_each (\<lambda>kv. add_environment_variable (fst kv) (snd kv)) ps w =
     (None, w\<lparr>w_stdout := w_stdout w @ env_lines ps\<rparr>)"
  by (induction ps arbitrary: w) (simp_all add: add_environment_variable_def print_to_def env_lines_def)

lemma write_target_env:
  assumes "get_properties t \<noteq> []" and "get_target t = ''env''"
  shows "write_target t w = (None, w\<lparr>w_stdout := w_stdout w @ env_lines (get_properties t)\<rparr>)"
  using assms by (simp add: write_target_def Let_def for_each_env)

lemma write_target_file_illegal_format:
  assumes "get_properties t \<noteq> []" and "t_target t = Some (''file:'' @ filename)"
    and "file_format t filename = format" and "format \<notin> legal_formats"
    and "filename \<notin> w_unopenable w"
  shows "write_target t w =
           (None, print_stderr (''Illegal format '' @ format @ '' in VCAPX_CONFIG'')
                    (w\<lparr>w_files := (w_files w)(filename \<mapsto> [])\<rparr>))"
  using assms write_target_file [OF assms(1,2), of w] write_property_file_illegal [OF assms(4)]
  by (simp add: with_open_wb_def)

lemma file_format_by_extension:
  assumes "t_format target = None"
  shows "CHR ''.'' \<notin> set ext \<Longrightarrow> file_format target (base @ ''.'' @ ext) = ext"
    and "CHR ''.'' \<notin> set path \<Longrightarrow> file_format target path = ''properties''"
  using assms rsplit1_last [of "CHR ''.''" ext base] rsplit1_none [of "CHR ''.''" path]
  by (simp_all add: file_format_def)

lemma omitted_filter_receives_every_key:
  assumes "route_config ll cfg targets w = (targets', w')"
    and "r < length targets"
    and "t_filter (targets ! r) = None"
    and "s \<in> set (get_propertySources cfg)"
    and "(k, v) \<in> set (get_source s)"
  shows "k \<in> fst ` set (get_properties (targets' ! r))"
proof -
  have m: "re_match (get_filter (targets ! r)) k"
    using assms(3) by (simp add: get_filter_def)
  have "k \<in> fst ` set (replay cfg)"
    using assms(4,5) by (force simp: keys_replay)
  with m show ?thesis
    using route_config_nth(1) [OF assms(1,2)] by (simp add: keys_fold_assign)
qed

lemma omitted_target_resolves_to_stderr:
  assumes "route_config ll cfg targets w = (targets', w')"
    and "q < length targets" and "t_target (targets ! q) = None"
    and "get_properties (targets' ! q) \<noteq> []"
  shows "write_target (targets' ! q) w2 =
           write_property_file Stderr (get_properties (targets' ! q))
             (case t_format (targets ! q) of None \<Rightarrow> ''text'' | Some f \<Rightarrow> f) w2"
proof -
  have "get_target (targets' ! q) = ''stderr''"
    using assms(3) get_target_route_config(1) [OF assms(1,2)] by (simp add: get_target_def)
  then show ?thesis
    using write_target_stderr [OF assms(4), of w2] get_target_route_config(2) [OF assms(1,2)]
    by simp
qed

section \<open>The default patterns on sample keys\<close>

lemma default_patterns_examples:
  "map (\<lambda>t. map (re_match (get_filter t)) [''FOO_1'', ''a.b'', ''abc'', ''42'', ''Ab'', ''a.b.'', '''']) default_targets =
     [[True, False, False, True, False, False, False],
      [False, True, False, False, False, False, False],
      [False, False, True, True, False, False, False]]"
  by code_simp

section \<open>The run as a whole\<close>

lemma main_exits_without_application_name:
  "va_application_name (e_VCAP_APPLICATION e) = None \<Longrightarrow>
     fst (main e w) = Some (SystemExit 1) \<and> exit_status (fst (main e w)) = 1"
  by (simp add: main_def get_application_info_def)

lemma fetch_transport_error_raises:
  "fst (main fetch_failure_env empty_world) = Some AttributeError \<and>
   exit_status (fst (main fetch_failure_env empty_world)) = 1"
  by code_simp

lemma save_config_properties_raises:
  assumes "route_config ll cfg (case vc_targets vcap of None \<Rightarrow> default_targets | Some x \<Rightarrow> x) w0
             = (targets', w1)"
    and "for_each write_target targets' w1 = (Some e, w2)"
  shows "save_config_properties vcap ll cfg w0 =
           (Some e, (case vc_targets vcap of None \<Rightarrow> vcap
                     | Some x \<Rightarrow> vcap\<lparr>vc_targets := Some targets'\<rparr>), w2)"
  using assms by (simp add: save_config_properties_def)

lemma omitted_target_string_value:
  "fst (save_config_properties bare_vcap 1 catch_all_config empty_world) = None \<and>
   w_stderr (snd (snd (save_config_properties bare_vcap 1 catch_all_config empty_world))) =
     [Line [CHR ''b'', CHR 0x27, CHR ''A'', CHR ''n'', CHR ''y'', CHR ''.'', CHR ''K'', CHR ''e'',
            CHR ''y'', CHR ''='', CHR ''v'', CHR 0x27]]"
  by code_simp

section \<open>Claims\<close>

text \<open>
  C1 (as amended). The Router tests every rule for every key, with no early
  stop: after routing, the keys in the bucket of rule \<open>r\<close> are the keys it held
  before together with every key of the sources that the pattern of rule \<open>r\<close>
  matches (prefix-anchored). A key that several patterns match is in several
  buckets.
\<close>

theorem routing_reaches_every_matching_rule:
  assumes "route_config ll cfg targets w = (targets', w')" and "r < length targets"
  shows "length targets' = length targets \<and>
         fst ` set (get_properties (targets' ! r)) =
           fst ` set (get_properties (targets ! r)) \<union>
           {k. (\<exists>s \<in> set (get_propertySources cfg). k \<in> fst ` set (get_source s)) \<and>
               re_match (get_filter (targets ! r)) k}"
  using route_config_nth [OF assms] keys_replay [of cfg]
  by (auto simp: keys_fold_assign)

theorem routing_reaches_every_matching_rule_witness:
  "fst ` set (get_properties (fst (route_config 1 digits_config default_targets empty_world) ! 0)) = {''42''} \<and>
   fst ` set (get_properties (fst (route_config 1 digits_config default_targets empty_world) ! 1)) = {} \<and>
   fst ` set (get_properties (fst (route_config 1 digits_config default_targets empty_world) ! 2)) = {''42''}"
proof -
  let ?res = "route_config 1 digits_config default_targets empty_world"
  have h: "?res = (fst ?res, snd ?res)" by simp
  have l: "0 < length default_targets" "1 < length default_targets" "2 < length default_targets"
    by (simp_all add: default_targets_def)
  have m0: "re_match (get_filter (default_targets ! 0)) ''42''" by code_simp
  have m1: "\<not> re_match (get_filter (default_targets ! 1)) ''42''" by code_simp
  have m2: "re_match (get_filter (default_targets ! 2)) ''42''" by code_simp
  have e0: "get_properties (default_targets ! 0) = []" by code_simp
  have e1: "get_properties (default_targets ! 1) = []" by code_simp
  have e2: "get_properties (default_targets ! 2) = []" by code_simp
  have s: "(\<exists>s \<in> set (get_propertySources digits_config). k \<in> fst ` set (get_source s)) \<longleftrightarrow> k = ''42''" for k
    by (simp add: digits_config_def get_propertySources_def get_source_def)
  have c: "{k. k = a \<and> P k} = (if P a then {a} else {})" for a :: string and P
    by auto
  have r0: "fst ` set (get_properties (fst ?res ! 0)) = {''42''}"
    using routing_reaches_every_matching_rule [OF h l(1), THEN conjunct2]
    by (simp only: e0 s c m0 if_True list.set image_empty Un_empty_left)
  have r1: "fst ` set (get_properties (fst ?res ! 1)) = {}"
    using routing_reaches_every_matching_rule [OF h l(2), THEN conjunct2] m1
    by (simp only: e1 s c if_False list.set image_empty Un_empty_left)
  have r2: "fst ` set (get_properties (fst ?res ! 2)) = {''42''}"
    using routing_reaches_every_matching_rule [OF h l(3), THEN conjunct2]
    by (simp only: e2 s c m2 if_True list.set image_empty Un_empty_left)
  show ?thesis
    using r0 r1 r2 by (intro conjI)
qed

text \<open>
  C1 as stated fails: with the default rules the key \<^verbatim>\<open>42\<close> matches the first
  pattern and the third, and is stored in the first bucket and in the third.
\<close>

theorem first_match_only_counterexample:
  "re_match (get_filter (default_targets ! 0)) ''42'' \<and>
   re_match (get_filter (default_targets ! 2)) ''42'' \<and>
   map get_properties (fst (route_config 1 digits_config default_targets empty_world)) =
     [[(''42'', SStr ''x'')], [], [(''42'', SStr ''x'')]]"
  by code_simp

text \<open>
  C2. Merge precedence: when a key \<open>k\<close> appears in several property sources,
  the value kept for \<open>k\<close> in the bucket of a rule whose pattern matches \<open>k\<close> is
  the value of the first-listed source that has \<open>k\<close> (position \<open>i\<close>, no earlier
  position having \<open>k\<close>), whatever the other positions hold: the sources are
  replayed in reverse order and each assignment overwrites. A source is a
  dict, so its keys are distinct.
\<close>

theorem merge_first_listed_wins:
  assumes "route_config ll cfg targets w = (targets', w')"
    and "r < length targets"
    and "re_match (get_filter (targets ! r)) k"
    and "i < length (get_propertySources cfg)"
    and "distinct (map fst (get_source (get_propertySources cfg ! i)))"
    and "map_of (get_source (get_propertySources cfg ! i)) k = Some v"
    and "\<forall>h<i. k \<notin> fst ` set (get_source (get_propertySources cfg ! h))"
  shows "map_of (get_properties (targets' ! r)) k = Some v"
proof -
  have "map_of (rev (filter (\<lambda>kv. re_match (get_filter (targets ! r)) (fst kv)) (replay cfg))) k = Some v"
    using assms(4,5,6,7,3) by (rule map_of_rev_replay)
  then show ?thesis
    using route_config_nth(1) [OF assms(1,2)]
    by (simp add: map_of_fold_assign map_add_def)
qed

theorem merge_first_listed_wins_witness:
  "map_of (get_properties (fst (route_config 1 scenario_config default_targets empty_world) ! 1)) ''a.b''
     = Some (SStr ''x'') \<and>
   map_of (get_source (get_propertySources scenario_config ! 1)) ''a.b'' = Some (SStr ''y'')"
proof -
  let ?res = "route_config 1 scenario_config default_targets empty_world"
  have h1: "?res = (fst ?res, snd ?res)" by simp
  have h2: "1 < length default_targets" by (simp add: default_targets_def)
  have h3: "re_match (get_filter (default_targets ! 1)) ''a.b''" by code_simp
  have h4: "0 < length (get_propertySources scenario_config)" by code_simp
  have h5: "distinct (map fst (get_source (get_propertySources scenario_config ! 0)))" by code_simp
  have h6: "map_of (get_source (get_propertySources scenario_config ! 0)) ''a.b'' = Some (SStr ''x'')"
    by code_simp
  have h7: "\<forall>h<0. ''a.b'' \<notin> fst ` set (get_source (get_propertySources scenario_config ! h))" by simp
  have h8: "map_of (get_source (get_propertySources scenario_config ! 1)) ''a.b'' = Some (SStr ''y'')"
    by code_simp
  show ?thesis
    using merge_first_listed_wins [OF h1 h2 h3 h4 h5 h6 h7] h8 by simp
qed

text \<open>
  C3. The end-to-end scenario with the default rules. Merge and routing are as
  the claim says: \<^verbatim>\<open>C\<close> with value \<^verbatim>\<open>z\<close> is in the \<^verbatim>\<open>env\<close> bucket and
  \<^verbatim>\<open>a.b\<close> with value \<^verbatim>\<open>x\<close> in the bucket of \<^verbatim>\<open>file:config-server.properties\<close>,
  and the line \<^verbatim>\<open>C z\<close> reaches standard output. The line \<^verbatim>\<open>a.b=x\<close> is not
  written: the file is opened in binary mode, \<^verbatim>\<open>print\<close> into it raises
  \<^verbatim>\<open>TypeError\<close>, the file stays empty and the exception leaves the function.
\<close>

theorem end_to_end_scenario:
  "map get_target (fst (route_config 1 scenario_config default_targets empty_world)) =
     [''env'', ''file:config-server.properties'', ''file:config-server.yml''] \<and>
   map get_properties (fst (route_config 1 scenario_config default_targets empty_world)) =
     [[(''C'', SStr ''z'')], [(''a.b'', SStr ''x'')], []] \<and>
   fst (save_config_properties empty_vcap_config 1 scenario_config empty_world) = Some TypeError \<and>
   w_stdout (snd (snd (save_config_properties empty_vcap_config 1 scenario_config empty_world))) =
     [Line ''C z''] \<and>
   w_files (snd (snd (save_config_properties empty_vcap_config 1 scenario_config empty_world)))
     ''config-server.properties'' = Some []"
  by code_simp

text \<open>
  C4. The properties format on the mapping \<^verbatim>\<open>{a: "1", b: "2"}\<close>. The code
  prints the \<^verbatim>\<open>bytes\<close> object \<^verbatim>\<open>key.encode() + b'=' + value.encode()\<close>, so a
  text stream receives its \<^verbatim>\<open>repr\<close>, the lines \<^verbatim>\<open>b'a=1'\<close> and \<^verbatim>\<open>b'b=2'\<close>;
  splitting them at \<^verbatim>\<open>=\<close> does not give back the mapping. Into a file opened
  in binary mode the first \<^verbatim>\<open>print\<close> raises \<^verbatim>\<open>TypeError\<close>.
\<close>

theorem properties_lines_are_bytes_reprs:
  "fst (write_property_file Stdout roundtrip_properties ''properties'' empty_world) = None \<and>
   w_stdout (snd (write_property_file Stdout roundtrip_properties ''properties'' empty_world)) =
     [Line [CHR ''b'', CHR 0x27, CHR ''a'', CHR ''='', CHR ''1'', CHR 0x27],
      Line [CHR ''b'', CHR 0x27, CHR ''b'', CHR ''='', CHR ''2'', CHR 0x27]] \<and>
   map split_line
     (w_stdout (snd (write_property_file Stdout roundtrip_properties ''properties'' empty_world))) =
     [Some ([CHR ''b'', CHR 0x27, CHR ''a''], [CHR ''1'', CHR 0x27]),
      Some ([CHR ''b'', CHR 0x27, CHR ''b''], [CHR ''2'', CHR 0x27])] \<and>
   fst (write_property_file (BinaryFile ''out.properties'') roundtrip_properties ''properties''
          empty_world) = Some TypeError"
  by code_simp

text \<open>
  C5 (as amended). Destination isolation holds for the failures the code
  detects itself: an illegal destination string on a populated target, or an
  illegal format string on a populated target whose destination is
  \<^verbatim>\<open>stderr\<close>, \<^verbatim>\<open>stdout\<close> or a file that can be opened, is reported on standard
  error and the loop goes on with the remaining targets. A target whose
  destination is \<^verbatim>\<open>env\<close> never reads its format: its properties are printed
  and the loop goes on. An exception raised while a target is written is not
  caught: it ends the loop and leaves \<^verbatim>\<open>save_config_properties\<close>.
\<close>

theorem illegal_target_or_format_does_not_stop_loop:
  assumes "get_properties t \<noteq> []" and "for_each write_target pre w0 = (None, w)"
  shows "(get_target t \<notin> {''env'', ''stderr'', ''stdout''} \<and> \<not> prefix ''file:'' (get_target t) \<longrightarrow>
            for_each write_target (pre @ t # ts) w0 =
              for_each write_target ts
                (print_stderr (''Illegal target type '' @ get_target t @ '' in VCAPX_CONFIG'') w)) \<and>
         (get_target t \<in> {''stderr'', ''stdout''} \<and> t_format t = Some format \<and>
          format \<notin> legal_formats \<longrightarrow>
            for_each write_target (pre @ t # ts) w0 =
              for_each write_target ts
                (print_stderr (''Illegal format '' @ format @ '' in VCAPX_CONFIG'') w)) \<and>
         (t_target t = Some (''file:'' @ filename) \<and> file_format t filename = format \<and>
          format \<notin> legal_formats \<and> filename \<notin> w_unopenable w \<longrightarrow>
            for_each write_target (pre @ t # ts) w0 =
              for_each write_target ts
                (print_stderr (''Illegal format '' @ format @ '' in VCAPX_CONFIG'')
                   (w\<lparr>w_files := (w_files w)(filename \<mapsto> [])\<rparr>))) \<and>
         (get_target t = ''env'' \<longrightarrow>
            for_each write_target (pre @ t # ts) w0 =
              for_each write_target ts (w\<lparr>w_stdout := w_stdout w @ env_lines (get_properties t)\<rparr>)) \<and>
         (write_target t w = (Some e, w1) \<longrightarrow>
            for_each write_target (pre @ t # ts) w0 = (Some e, w1)) \<and>
         (route_config ll cfg (case vc_targets vcap of None \<Rightarrow> default_targets | Some x \<Rightarrow> x) w_run
            = (pre @ t # ts, w0) \<and> write_target t w = (Some e, w1) \<longrightarrow>
            fst (save_config_properties vcap ll cfg w_run) = Some e \<and>
            snd (snd (save_config_properties vcap ll cfg w_run)) = w1)"
proof -
  have loop: "for_each write_target (pre @ t # ts) w0 = for_each write_target (t # ts) w"
    using assms(2) by (rule for_each_after_prefix)
  have c1: "for_each write_target (pre @ t # ts) w0 =
              for_each write_target ts
                (print_stderr (''Illegal target type '' @ get_target t @ '' in VCAPX_CONFIG'') w)"
    if "get_target t \<notin> {''env'', ''stderr'', ''stdout''} \<and> \<not> prefix ''file:'' (get_target t)"
    using that write_target_illegal_destination [OF assms(1), of w] by (simp add: loop)
  have c2: "for_each write_target (pre @ t # ts) w0 =
              for_each write_target ts
                (print_stderr (''Illegal format '' @ format @ '' in VCAPX_CONFIG'') w)"
    if "get_target t \<in> {''stderr'', ''stdout''} \<and> t_format t = Some format \<and> format \<notin> legal_formats"
    using that write_target_stream_illegal_format [OF assms(1), of format w] by (simp add: loop)
  have c3: "for_each write_target (pre @ t # ts) w0 =
              for_each write_target ts
                (print_stderr (''Illegal format '' @ format @ '' in VCAPX_CONFIG'')
                   (w\<lparr>w_files := (w_files w)(filename \<mapsto> [])\<rparr>))"
    if "t_target t = Some (''file:'' @ filename) \<and> file_format t filename = format \<and>
        format \<notin> legal_formats \<and> filename \<notin> w_unopenable w"
    using that write_target_file_illegal_format [OF assms(1), of filename format w]
    by (simp add: loop)
  have c4: "for_each write_target (pre @ t # ts) w0 =
              for_each write_target ts (w\<lparr>w_stdout := w_stdout w @ env_lines (get_properties t)\<rparr>)"
    if "get_target t = ''env''"
    using that write_target_env [OF assms(1), of w] by (simp add: loop)
  have c5: "for_each write_target (pre @ t # ts) w0 = (Some e, w1)"
    if "write_target t w = (Some e, w1)"
    using that by (simp add: loop)
  have c6: "fst (save_config_properties vcap ll cfg w_run) = Some e \<and>
            snd (snd (save_config_properties vcap ll cfg w_run)) = w1"
    if "route_config ll cfg (case vc_targets vcap of None \<Rightarrow> default_targets | Some x \<Rightarrow> x) w_run
          = (pre @ t # ts, w0) \<and> write_target t w = (Some e, w1)"
    using that save_config_properties_raises [of ll cfg vcap w_run "pre @ t # ts" w0 e w1] c5
    by simp
  show ?thesis
    using c1 c2 c3 c4 c5 c6 by blast
qed

theorem illegal_target_or_format_does_not_stop_loop_witness:
  "for_each write_target mixed_targets stale_world =
     (None, stale_world\<lparr>w_stdout := [Line ''k v''],
              w_stderr := [Line ''Illegal target type ftp:x in VCAPX_CONFIG'',
                           Line ''Illegal format bogus in VCAPX_CONFIG'',
                           Line ''Illegal format cfg in VCAPX_CONFIG''],
              w_files := [''out.cfg'' \<mapsto> []]\<rparr>) \<and>
   for_each write_target
     [rule_for ''ftp:x'' None (Some one_property),
      rule_for ''file:/no/such/dir/out.yml'' None (Some one_property),
      rule_for ''env'' None (Some one_property)] locked_world =
     (Some OSError, print_stderr ''Illegal target type ftp:x in VCAPX_CONFIG'' locked_world) \<and>
   fst (save_config_properties isolation_vcap 1 catch_all_config locked_world) = Some OSError \<and>
   snd (snd (save_config_properties isolation_vcap 1 catch_all_config locked_world)) = locked_world"
proof -
  note T = illegal_target_or_format_does_not_stop_loop
  let ?a = "rule_for ''ftp:x'' None (Some one_property)"
  let ?b = "rule_for ''stdout'' (Some ''bogus'') (Some one_property)"
  let ?f = "rule_for ''file:out.cfg'' None (Some one_property)"
  let ?v = "rule_for ''env'' (Some ''bogus'') (Some one_property)"
  let ?u = "rule_for ''file:/no/such/dir/out.yml'' None (Some one_property)"
  let ?c = "rule_for ''env'' None (Some one_property)"
  let ?da = "''Illegal target type ftp:x in VCAPX_CONFIG''"
  have p: "get_properties ?a \<noteq> []" "get_properties ?b \<noteq> []" "get_properties ?f \<noteq> []"
    "get_properties ?v \<noteq> []" "get_properties ?u \<noteq> []"
    by (simp_all add: rule_for_def get_properties_def one_property_def)
  have nil: "for_each write_target [] w = (None, w)" for w
    by simp
  have ha: "get_target ?a \<notin> {''env'', ''stderr'', ''stdout''} \<and> \<not> prefix ''file:'' (get_target ?a)"
    by (simp add: rule_for_def get_target_def)
  have hb: "get_target ?b \<in> {''stderr'', ''stdout''} \<and> t_format ?b = Some ''bogus'' \<and>
            ''bogus'' \<notin> legal_formats"
    by (simp add: rule_for_def get_target_def legal_formats_def)
  have ff: "file_format ?f ''out.cfg'' = ''cfg''"
    by code_simp
  have hf: "t_target ?f = Some (''file:'' @ ''out.cfg'') \<and> file_format ?f ''out.cfg'' = ''cfg'' \<and>
            ''cfg'' \<notin> legal_formats \<and> ''out.cfg'' \<notin> w_unopenable w"
    if "w_unopenable w = {}" for w
    using that ff by (simp add: rule_for_def legal_formats_def)
  have hv: "get_target ?v = ''env''"
    by (simp add: rule_for_def get_target_def)
  have ga: "get_target ?a = ''ftp:x''"
    by (simp add: rule_for_def get_target_def)
  have gv: "env_lines (get_properties ?v) = [Line ''k v'']"
    by (simp add: rule_for_def get_properties_def one_property_def env_lines_def)
  have s1: "for_each write_target ([] @ ?a # [?b, ?f, ?v]) w =
      for_each write_target [?b, ?f, ?v]
        (print_stderr (''Illegal target type '' @ get_target ?a @ '' in VCAPX_CONFIG'') w)" for w
    using T [OF p(1) nil, THEN conjunct1, THEN mp, OF ha] .
  have s2: "for_each write_target ([] @ ?b # [?f, ?v]) w =
      for_each write_target [?f, ?v]
        (print_stderr (''Illegal format '' @ ''bogus'' @ '' in VCAPX_CONFIG'') w)" for w
    using T [OF p(2) nil, THEN conjunct2, THEN conjunct1, THEN mp, OF hb] .
  have s3: "for_each write_target ([] @ ?f # [?v]) w =
      for_each write_target [?v]
        (print_stderr (''Illegal format '' @ ''cfg'' @ '' in VCAPX_CONFIG'')
           (w\<lparr>w_files := (w_files w)(''out.cfg'' \<mapsto> [])\<rparr>))"
    if "w_unopenable w = {}" for w
    using T [OF p(3) nil, THEN conjunct2, THEN conjunct2, THEN conjunct1, THEN mp, OF hf [OF that]] .
  have s4: "for_each write_target ([] @ ?v # []) w =
      for_each write_target [] (w\<lparr>w_stdout := w_stdout w @ env_lines (get_properties ?v)\<rparr>)" for w
    using T [OF p(4) nil, THEN conjunct2, THEN conjunct2, THEN conjunct2, THEN conjunct1,
             THEN mp, OF hv] .
  have first: "for_each write_target mixed_targets stale_world =
     (None, stale_world\<lparr>w_stdout := [Line ''k v''],
              w_stderr := [Line ''Illegal target type ftp:x in VCAPX_CONFIG'',
                           Line ''Illegal format bogus in VCAPX_CONFIG'',
                           Line ''Illegal format cfg in VCAPX_CONFIG''],
              w_files := [''out.cfg'' \<mapsto> []]\<rparr>)"
  proof -
    let ?w1 = "print_stderr (''Illegal target type '' @ get_target ?a @ '' in VCAPX_CONFIG'') stale_world"
    let ?w2 = "print_stderr (''Illegal format '' @ ''bogus'' @ '' in VCAPX_CONFIG'') ?w1"
    let ?w3 = "print_stderr (''Illegal format '' @ ''cfg'' @ '' in VCAPX_CONFIG'')
                 (?w2\<lparr>w_files := (w_files ?w2)(''out.cfg'' \<mapsto> [])\<rparr>)"
    have o: "w_unopenable ?w2 = {}"
      by (simp add: print_stderr_def stale_world_def)
    have "for_each write_target mixed_targets stale_world = for_each write_target [?b, ?f, ?v] ?w1"
      using s1 [of stale_world] by (simp add: mixed_targets_def)
    also have "\<dots> = for_each write_target [?f, ?v] ?w2"
      using s2 [of ?w1] by simp
    also have "\<dots> = for_each write_target [?v] ?w3"
      using s3 [OF o] by simp
    also have "\<dots> = (None, ?w3\<lparr>w_stdout := w_stdout ?w3 @ env_lines (get_properties ?v)\<rparr>)"
      using s4 [of ?w3] by simp
    also have "\<dots> = (None, stale_world\<lparr>w_stdout := [Line ''k v''],
              w_stderr := [Line ''Illegal target type ftp:x in VCAPX_CONFIG'',
                           Line ''Illegal format bogus in VCAPX_CONFIG'',
                           Line ''Illegal format cfg in VCAPX_CONFIG''],
              w_files := [''out.cfg'' \<mapsto> []]\<rparr>)"
      by (simp add: gv ga print_stderr_def stale_world_def)
    finally show ?thesis .
  qed
  have pre_a: "for_each write_target [?a] locked_world = (None, print_stderr ?da locked_world)"
    using s1 [of locked_world] write_target_illegal_destination [OF p(1) _ _, of locked_world] ha
    by (simp add: ga)
  have raise_u: "write_target ?u w = (Some OSError, w)"
    if "''/no/such/dir/out.yml'' \<in> w_unopenable w" for w
    using that
    by (simp add: write_target_def rule_for_def get_properties_def get_target_def one_property_def
          with_open_wb_def Let_def)
  have lk: "''/no/such/dir/out.yml'' \<in> w_unopenable (print_stderr ?da locked_world)"
    "''/no/such/dir/out.yml'' \<in> w_unopenable locked_world"
    by (simp_all add: print_stderr_def locked_world_def)
  have second: "for_each write_target ([?a] @ ?u # [?c]) locked_world =
      (Some OSError, print_stderr ?da locked_world)"
    using T [OF p(5) pre_a, THEN conjunct2, THEN conjunct2, THEN conjunct2, THEN conjunct2,
             THEN conjunct1, THEN mp, OF raise_u [OF lk(1)]] .
  let ?r1 = "rule_for ''file:/no/such/dir/out.yml'' None (Some [(''Any.Key'', SStr ''v'')])"
  let ?r2 = "rule_for ''env'' None (Some [(''Any.Key'', SStr ''v'')])"
  have routed: "route_config 1 catch_all_config
        (case vc_targets isolation_vcap of None \<Rightarrow> default_targets | Some x \<Rightarrow> x) locked_world =
        ([] @ ?r1 # [?r2], locked_world)"
    by (simp add: route_config_def route_source_def route_property_def catch_all_config_def
          get_propertySources_def get_source_def isolation_vcap_def isolation_targets_def
          rule_for_def get_filter_def get_target_def get_properties_def)
  have pr1: "get_properties ?r1 \<noteq> []"
    by (simp add: rule_for_def get_properties_def)
  have raise_r1: "write_target ?r1 locked_world = (Some OSError, locked_world)"
    using lk(2)
    by (simp add: write_target_def rule_for_def get_properties_def get_target_def
          with_open_wb_def Let_def)
  have third: "fst (save_config_properties isolation_vcap 1 catch_all_config locked_world) = Some OSError \<and>
      snd (snd (save_config_properties isolation_vcap 1 catch_all_config locked_world)) = locked_world"
    using T [OF pr1 nil, THEN conjunct2, THEN conjunct2, THEN conjunct2, THEN conjunct2,
             THEN conjunct2, THEN mp, OF conjI [OF routed raise_r1]] .
  show ?thesis
    using first second third by simp
qed

text \<open>
  C5 as stated fails: both targets are populated, the file of the first one
  cannot be opened, \<^verbatim>\<open>OSError\<close> leaves \<^verbatim>\<open>save_config_properties\<close>, and the
  \<^verbatim>\<open>env\<close> target after it is never written; nothing is reported.
\<close>

theorem write_failure_propagates_counterexample:
  "map get_properties (fst (route_config 1 catch_all_config isolation_targets locked_world)) =
     [[(''Any.Key'', SStr ''v'')], [(''Any.Key'', SStr ''v'')]] \<and>
   fst (save_config_properties isolation_vcap 1 catch_all_config locked_world) = Some OSError \<and>
   w_stdout (snd (snd (save_config_properties isolation_vcap 1 catch_all_config locked_world))) = [] \<and>
   w_stderr (snd (snd (save_config_properties isolation_vcap 1 catch_all_config locked_world))) = []"
  by code_simp

text \<open>
  C6. The application name is known, the service is bound, and the token
  endpoint cannot be reached: \<^verbatim>\<open>URLError\<close> leaves \<^verbatim>\<open>get_access_token\<close>,
  \<^verbatim>\<open>get_spring_cloud_config\<close> and \<^verbatim>\<open>main\<close> uncaught, the process ends with
  status 1, and the script has written nothing to either stream.
\<close>

theorem token_transport_error_aborts:
  "va_application_name (e_VCAP_APPLICATION token_failure_env) = Some ''app'' \<and>
   fst (main token_failure_env empty_world) = Some URLError \<and>
   exit_status (fst (main token_failure_env empty_world)) = 1 \<and>
   w_stdout (snd (snd (main token_failure_env empty_world))) = [] \<and>
   w_stderr (snd (snd (main token_failure_env empty_world))) = []"
  by code_simp

text \<open>
  C7 (as amended). When a populated target whose destination is \<^verbatim>\<open>stderr\<close>,
  \<^verbatim>\<open>stdout\<close> or a file that can be opened carries an unknown format string,
  the serializer prints one diagnostic on standard error, which names the
  format and not the destination, and no property of the bucket is written.
  The file of a file destination has been opened for writing before the
  format is looked at, so it is left empty. A target whose destination is
  \<^verbatim>\<open>env\<close> never reads its format: its properties are printed on standard
  output and nothing is reported.
\<close>

theorem unknown_format_reported:
  assumes "format \<notin> legal_formats"
  shows "write_property_file file properties format w =
           (None, print_stderr (''Illegal format '' @ format @ '' in VCAPX_CONFIG'') w) \<and>
         (get_properties target \<noteq> [] \<and> get_target target \<in> {''stderr'', ''stdout''} \<and>
          t_format target = Some format \<longrightarrow>
            write_target target w =
              (None, print_stderr (''Illegal format '' @ format @ '' in VCAPX_CONFIG'') w)) \<and>
         (get_properties target \<noteq> [] \<and> t_target target = Some (''file:'' @ filename) \<and>
          file_format target filename = format \<and> filename \<notin> w_unopenable w \<longrightarrow>
            write_target target w =
              (None, print_stderr (''Illegal format '' @ format @ '' in VCAPX_CONFIG'')
                       (w\<lparr>w_files := (w_files w)(filename \<mapsto> [])\<rparr>))) \<and>
         (get_properties target \<noteq> [] \<and> get_target target = ''env'' \<and>
          t_format target = Some format \<longrightarrow>
            write_target target w =
              (None, w\<lparr>w_stdout := w_stdout w @ env_lines (get_properties target)\<rparr>))"
proof (intro conjI impI)
  show "write_property_file file properties format w =
          (None, print_stderr (''Illegal format '' @ format @ '' in VCAPX_CONFIG'') w)"
    using assms by (rule write_property_file_illegal)
next
  assume "get_properties target \<noteq> [] \<and> get_target target \<in> {''stderr'', ''stdout''} \<and>
          t_format target = Some format"
  then show "write_target target w =
      (None, print_stderr (''Illegal format '' @ format @ '' in VCAPX_CONFIG'') w)"
    using write_target_stream_illegal_format [of target format w] assms by simp
next
  assume "get_properties target \<noteq> [] \<and> t_target target = Some (''file:'' @ filename) \<and>
          file_format target filename = format \<and> filename \<notin> w_unopenable w"
  then show "write_target target w =
      (None, print_stderr (''Illegal format '' @ format @ '' in VCAPX_CONFIG'')
               (w\<lparr>w_files := (w_files w)(filename \<mapsto> [])\<rparr>))"
    using write_target_file_illegal_format [of target filename format w] assms by simp
next
  assume "get_properties target \<noteq> [] \<and> get_target target = ''env'' \<and>
          t_format target = Some format"
  then show "write_target target w =
      (None, w\<lparr>w_stdout := w_stdout w @ env_lines (get_properties target)\<rparr>)"
    using write_target_env [of target w] by simp
qed

theorem unknown_format_reported_witness:
  "write_property_file Stdout one_property ''bogus'' empty_world =
     (None, print_stderr ''Illegal format bogus in VCAPX_CONFIG'' empty_world) \<and>
   write_target (rule_for ''stdout'' (Some ''bogus'') (Some one_property)) empty_world =
     (None, print_stderr ''Illegal format bogus in VCAPX_CONFIG'' empty_world) \<and>
   write_target (rule_for ''file:out.cfg'' (Some ''bogus'') (Some one_property)) stale_world =
     (None, print_stderr ''Illegal format bogus in VCAPX_CONFIG''
              (stale_world\<lparr>w_files := (w_files stale_world)(''out.cfg'' \<mapsto> [])\<rparr>)) \<and>
   write_target (rule_for ''env'' (Some ''bogus'') (Some one_property)) empty_world =
     (None, empty_world\<lparr>w_stdout := [Line ''k v'']\<rparr>)"
proof -
  let ?s = "rule_for ''stdout'' (Some ''bogus'') (Some one_property)"
  let ?t = "rule_for ''file:out.cfg'' (Some ''bogus'') (Some one_property)"
  let ?v = "rule_for ''env'' (Some ''bogus'') (Some one_property)"
  have h: "''bogus'' \<notin> legal_formats"
    by (simp add: legal_formats_def)
  have s: "get_properties ?s \<noteq> [] \<and> get_target ?s \<in> {''stderr'', ''stdout''} \<and>
           t_format ?s = Some ''bogus''"
    by (simp add: rule_for_def get_properties_def get_target_def one_property_def)
  have t: "get_properties ?t \<noteq> [] \<and> t_target ?t = Some (''file:'' @ ''out.cfg'') \<and>
           file_format ?t ''out.cfg'' = ''bogus'' \<and> ''out.cfg'' \<notin> w_unopenable stale_world"
    by (simp add: rule_for_def get_properties_def one_property_def stale_world_def file_format_def)
  have v: "get_properties ?v \<noteq> [] \<and> get_target ?v = ''env'' \<and> t_format ?v = Some ''bogus''"
    by (simp add: rule_for_def get_properties_def get_target_def one_property_def)
  have gv: "env_lines (get_properties ?v) = [Line ''k v'']"
    by (simp add: rule_for_def get_properties_def one_property_def env_lines_def)
  note T = unknown_format_reported [OF h]
  have a1: "write_property_file Stdout one_property ''bogus'' empty_world =
      (None, print_stderr (''Illegal format '' @ ''bogus'' @ '' in VCAPX_CONFIG'') empty_world)"
    using T [THEN conjunct1] .
  have a2: "write_target ?s empty_world =
      (None, print_stderr (''Illegal format '' @ ''bogus'' @ '' in VCAPX_CONFIG'') empty_world)"
    using T [THEN conjunct2, THEN conjunct1, THEN mp, OF s] .
  have a3: "write_target ?t stale_world =
      (None, print_stderr (''Illegal format '' @ ''bogus'' @ '' in VCAPX_CONFIG'')
               (stale_world\<lparr>w_files := (w_files stale_world)(''out.cfg'' \<mapsto> [])\<rparr>))"
    using T [THEN conjunct2, THEN conjunct2, THEN conjunct1, THEN mp, OF t] .
  have a4: "write_target ?v empty_world =
      (None, empty_world\<lparr>w_stdout := w_stdout empty_world @ env_lines (get_properties ?v)\<rparr>)"
    using T [THEN conjunct2, THEN conjunct2, THEN conjunct2, THEN mp, OF v] .
  show ?thesis
    using a1 a2 a3 a4 by (simp add: gv empty_world_def)
qed

text \<open>
  C7 as stated fails: the file \<^verbatim>\<open>out.cfg\<close> held \<^verbatim>\<open>old\<close> and is empty after the
  write, and the diagnostic does not mention the destination.
\<close>

theorem unknown_format_counterexample:
  "w_files stale_world ''out.cfg'' = Some ''old'' \<and>
   fst (write_target (rule_for ''file:out.cfg'' (Some ''bogus'') (Some one_property)) stale_world) = None \<and>
   w_files (snd (write_target (rule_for ''file:out.cfg'' (Some ''bogus'') (Some one_property)) stale_world))
     ''out.cfg'' = Some [] \<and>
   w_stderr (snd (write_target (rule_for ''file:out.cfg'' (Some ''bogus'') (Some one_property)) stale_world))
     = [Line ''Illegal format bogus in VCAPX_CONFIG'']"
  by code_simp

text \<open>
  C8. Format inference for a file destination whose rule has no \<^verbatim>\<open>format\<close>
  entry. The format is inferred as the claim says, \<^verbatim>\<open>yml\<close> for
  \<^verbatim>\<open>file:out.yml\<close> and \<^verbatim>\<open>properties\<close> for \<^verbatim>\<open>file:out\<close>. The bucket is not
  serialized: the file is opened in binary mode, the first \<^verbatim>\<open>print\<close> of the
  renderer raises \<^verbatim>\<open>TypeError\<close>, and the file stays empty.
\<close>

theorem inferred_format_file_write_raises:
  "file_format (rule_for ''file:out.yml'' None (Some one_property)) ''out.yml'' = ''yml'' \<and>
   file_format (rule_for ''file:out'' None (Some one_property)) ''out'' = ''properties'' \<and>
   fst (write_target (rule_for ''file:out.yml'' None (Some one_property)) empty_world) = Some TypeError \<and>
   w_files (snd (write_target (rule_for ''file:out.yml'' None (Some one_property)) empty_world))
     ''out.yml'' = Some [] \<and>
   fst (write_target (rule_for ''file:out'' None (Some one_property)) empty_world) = Some TypeError \<and>
   w_files (snd (write_target (rule_for ''file:out'' None (Some one_property)) empty_world))
     ''out'' = Some []"
  by code_simp

text \<open>
  C9. A rule with neither a \<^verbatim>\<open>filter\<close> nor a \<^verbatim>\<open>target\<close> entry, and a source
  whose value is a number. The key reaches the bucket and the destination is
  \<^verbatim>\<open>stderr\<close>, as the claim says; \<^verbatim>\<open>write_property_file\<close> with the default
  format \<^verbatim>\<open>text\<close> then calls \<^verbatim>\<open>value.encode()\<close> on the number,
  \<^verbatim>\<open>AttributeError\<close> is raised, and nothing is written to standard error.
\<close>

theorem omitted_target_number_value_raises:
  "map get_target (fst (route_config 1 number_config [bare_rule] empty_world)) = [''stderr''] \<and>
   map get_properties (fst (route_config 1 number_config [bare_rule] empty_world)) =
     [[(''Any.Key'', SInt 5)]] \<and>
   fst (save_config_properties bare_vcap 1 number_config empty_world) = Some AttributeError \<and>
   w_stderr (snd (snd (save_config_properties bare_vcap 1 number_config empty_world))) = [] \<and>
   w_stdout (snd (snd (save_config_properties bare_vcap 1 number_config empty_world))) = []"
  by code_simp

text \<open>
  C10. A rule whose bucket is empty has no effect at write time: the loop
  skips it before looking at its destination or format, so the world is
  unchanged (no file opened, nothing printed, no diagnostic), also when the
  destination or the format is invalid.
\<close>

theorem empty_bucket_no_effect:
  "get_properties target = [] \<Longrightarrow> write_target target w = (None, w)"
  by (simp add: write_target_def)

theorem empty_bucket_no_effect_witness:
  "write_target (rule_for ''bogus'' (Some ''nope'') (Some [])) empty_world = (None, empty_world) \<and>
   write_target (rule_for ''file:out.cfg'' (Some ''nope'') None) stale_world = (None, stale_world)"
  using empty_bucket_no_effect [of "rule_for ''bogus'' (Some ''nope'') (Some [])" empty_world]
        empty_bucket_no_effect [of "rule_for ''file:out.cfg'' (Some ''nope'') None" stale_world]
  by (simp add: get_properties_def rule_for_def)

end
